theory Spec2Isabelle
  imports Main "HOL-Library.Sublist"
begin

section \<open>Python values, exceptions and the outside world\<close>

text \<open>
  The providers \<^verbatim>\<open>odmcp/providers/ch_sbb.py\<close> and \<^verbatim>\<open>odmcp/providers/glob_screeners.py\<close>
  receive an argument bag (\<^verbatim>\<open>dict[str, Any] | None\<close>), validate it with a pydantic model,
  call an external service and render the parsed answer as one text block.

  A raw Python value, as it arrives in an argument bag or in a decoded JSON payload. A finite
  float is kept as mantissa and binary exponent; a dict value is an association list with
  distinct keys.
\<close>

datatype pyval =
    VNone
  | VBool bool
  | VInt int
  | VFloat int int
  | VStr string
  | VList "pyval list"
  | VDict "(string \<times> pyval) list"

text \<open>The argument bag \<^verbatim>\<open>dict[str, Any]\<close>, and a validated model instance: its field values in
  declaration order (the order \<^verbatim>\<open>model_dump\<close> keeps).\<close>

type_synonym bag = "string \<rightharpoonup> pyval"
type_synonym model = "(string \<times> pyval) list"

text \<open>One line of a pydantic \<^verbatim>\<open>ValidationError\<close>: the field is named beside it.\<close>

datatype verr =
    Missing
  | WrongType
  | GreaterThanEqual int
  | LessThanEqual int

text \<open>The exceptions the two modules can raise: Python's own, pydantic's, httpx's, and an
  exception coming out of the yfinance library.\<close>

datatype exn =
    TypeError
  | AttributeError
  | ValidationError "(string \<times> verr) list"
  | ConnectError
  | HTTPStatusError nat
  | JSONDecodeError
  | YFinanceError

record request =
  url :: string
  query_params :: model

datatype body = NotJson | Json pyval

datatype reply = NoReply | Reply nat body

text \<open>
  Library code and the network are parameters of the model: pydantic's coercion of a raw value
  to \<^verbatim>\<open>int\<close>, \<^verbatim>\<open>str\<close> and \<^verbatim>\<open>bool\<close>, its validation of a nested result item (by class name), the
  \<^verbatim>\<open>__str__\<close> of a model instance, the answer of \<^verbatim>\<open>httpx.get\<close> to a request, and the answer
  of the yfinance screener to a predefined body (\<open>None\<close> when the library raises).
\<close>

record ext =
  as_int :: "pyval \<Rightarrow> int option"
  as_str :: "pyval \<Rightarrow> string option"
  as_bool :: "pyval \<Rightarrow> bool option"
  as_model :: "string \<Rightarrow> pyval \<Rightarrow> pyval option"
  model_str :: "model \<Rightarrow> string"
  http_get :: "request \<Rightarrow> reply"
  yf_response :: "pyval \<Rightarrow> pyval option"

text \<open>What a run leaves behind: the HTTP requests sent, the predefined bodies set on the
  module-level \<^verbatim>\<open>screener\<close>, and the lines given to \<^verbatim>\<open>log.error\<close> (the literal prefix of the
  f-string and the exception interpolated into it).\<close>

record world =
  sent :: "request list"
  predefined :: "pyval list"
  logged :: "(string \<times> exn) list"

type_synonym 'a st = "world \<Rightarrow> (exn + 'a) \<times> world"

definition ret :: "'a \<Rightarrow> 'a st" where
  "ret v w = (Inr v, w)"

definition lift :: "exn + 'a \<Rightarrow> 'a st" where
  "lift r w = (r, w)"

definition bind :: "'a st \<Rightarrow> ('a \<Rightarrow> 'b st) \<Rightarrow> 'b st" where
  "bind m f w = (case m w of (Inl e, w') \<Rightarrow> (Inl e, w') | (Inr v, w') \<Rightarrow> f v w')"

section \<open>Pydantic models as field declarations\<close>

datatype ftype = TInt | TStr | TBool | TOptional ftype | TListOf string

text \<open>A field: its name, its annotation, its default (\<open>None\<close> for a required field) and the
  \<^verbatim>\<open>ge\<close> and \<^verbatim>\<open>le\<close> bounds. Descriptions are documentation only and are left out.\<close>

datatype field = Field (fname: string) (ftyp: ftype) (fdefault: "pyval option")
  (f_ge: "int option") (f_le: "int option")

fun check_type :: "ext \<Rightarrow> ftype \<Rightarrow> pyval \<Rightarrow> pyval option" where
  "check_type X TInt v = map_option VInt (as_int X v)"
| "check_type X TStr v = map_option VStr (as_str X v)"
| "check_type X TBool v = map_option VBool (as_bool X v)"
| "check_type X (TOptional t) v = (if v = VNone then Some VNone else check_type X t v)"
| "check_type X (TListOf cls) v =
     (case v of
        VList xs \<Rightarrow> map_option VList (those (map (as_model X cls) xs))
      | _ \<Rightarrow> None)"

definition check_bounds :: "int option \<Rightarrow> int option \<Rightarrow> pyval \<Rightarrow> verr list" where
  "check_bounds lo hi v =
     (case v of
        VInt n \<Rightarrow>
          (case lo of
             Some l \<Rightarrow> if n < l then [GreaterThanEqual l]
                       else (case hi of Some h \<Rightarrow> if h < n then [LessThanEqual h] else []
                                      | None \<Rightarrow> [])
           | None \<Rightarrow> (case hi of Some h \<Rightarrow> if h < n then [LessThanEqual h] else []
                               | None \<Rightarrow> []))
      | _ \<Rightarrow> [])"

text \<open>A field absent from the bag takes its default, unvalidated; a field present is coerced
  and then checked against its bounds. Keys of the bag that no field declares are never read
  (pydantic's default \<^verbatim>\<open>extra='ignore'\<close>).\<close>

fun validate_field :: "ext \<Rightarrow> bag \<Rightarrow> field \<Rightarrow> (string \<times> verr) list + pyval" where
  "validate_field X args (Field n t d lo hi) =
     (case args n of
        None \<Rightarrow> (case d of None \<Rightarrow> Inl [(n, Missing)] | Some dv \<Rightarrow> Inr dv)
      | Some v \<Rightarrow>
          (case check_type X t v of
             None \<Rightarrow> Inl [(n, WrongType)]
           | Some v' \<Rightarrow>
               (case check_bounds lo hi v' of
                  [] \<Rightarrow> Inr v'
                | es \<Rightarrow> Inl (map (Pair n) es))))"

fun validate_fields :: "ext \<Rightarrow> bag \<Rightarrow> field list \<Rightarrow> (string \<times> verr) list \<times> model" where
  "validate_fields X args [] = ([], [])"
| "validate_fields X args (f # fs) =
     (case validate_fields X args fs of
        (es, m) \<Rightarrow>
          (case validate_field X args f of
             Inl e \<Rightarrow> (e @ es, m)
           | Inr v \<Rightarrow> (es, (fname f, v) # m)))"

definition validate :: "ext \<Rightarrow> field list \<Rightarrow> bag \<Rightarrow> exn + model" where
  "validate X schema args =
     (case validate_fields X args schema of
        ([], m) \<Rightarrow> Inr m
      | (es, m) \<Rightarrow> Inl (ValidationError es))"

text \<open>\<^verbatim>\<open>Model(**arguments)\<close>: expanding \<^verbatim>\<open>None\<close> raises \<^verbatim>\<open>TypeError\<close> before the model is
  reached; \<^verbatim>\<open>arguments or {}\<close> turns \<^verbatim>\<open>None\<close> into the empty bag.\<close>

fun expand :: "bag option \<Rightarrow> exn + bag" where
  "expand None = Inl TypeError"
| "expand (Some d) = Inr d"

fun or_empty :: "bag option \<Rightarrow> bag option" where
  "or_empty None = Some Map.empty"
| "or_empty (Some d) = Some d"

text \<open>\<^verbatim>\<open>Model(**payload)\<close> for a decoded JSON payload: anything but a dict cannot be expanded.\<close>

fun expand_json :: "pyval \<Rightarrow> exn + bag" where
  "expand_json (VDict kvs) = Inr (map_of kvs)"
| "expand_json _ = Inl TypeError"

definition construct :: "ext \<Rightarrow> field list \<Rightarrow> exn + bag \<Rightarrow> exn + model" where
  "construct X schema kw = (case kw of Inl e \<Rightarrow> Inl e | Inr args \<Rightarrow> validate X schema args)"

definition model_dump_exclude_none :: "model \<Rightarrow> model" where
  "model_dump_exclude_none m = filter (\<lambda>kv. snd kv \<noteq> VNone) m"

section \<open>The HTTP exchange\<close>

definition BASE_URL :: string where
  "BASE_URL = ''https://data.sbb.ch/api/explore/v2.1''"

record response =
  status_code :: nat
  content :: body

text \<open>\<^verbatim>\<open>httpx.get(endpoint, params=...)\<close>: the request goes out (and is counted) whatever comes
  back; an unreachable host raises.\<close>

definition httpx_get :: "ext \<Rightarrow> string \<Rightarrow> model \<Rightarrow> response st" where
  "httpx_get X endpoint ps w =
     (let req = \<lparr>url = endpoint, query_params = ps\<rparr>;
          w' = w\<lparr>sent := sent w @ [req]\<rparr>
      in case http_get X req of
           NoReply \<Rightarrow> (Inl ConnectError, w')
         | Reply code b \<Rightarrow> (Inr \<lparr>status_code = code, content = b\<rparr>, w'))"

text \<open>\<^verbatim>\<open>response.raise_for_status()\<close> passes a 2xx status and raises for every other.\<close>

definition raise_for_status :: "response \<Rightarrow> exn + unit" where
  "raise_for_status r =
     (if 200 \<le> status_code r \<and> status_code r \<le> 299 then Inr ()
      else Inl (HTTPStatusError (status_code r)))"

definition json :: "response \<Rightarrow> exn + pyval" where
  "json r = (case content r of NotJson \<Rightarrow> Inl JSONDecodeError | Json v \<Rightarrow> Inr v)"

section \<open>Handlers\<close>

datatype content_block =
    TextContent string
  | ImageContent string string
  | EmbeddedResource string

type_synonym handler = "ext \<Rightarrow> bag option \<Rightarrow> content_block list st"

text \<open>\<^verbatim>\<open>try: ... except Exception as e: log.error(f"<prefix>{e}"); raise\<close>\<close>

definition try_log_raise :: "string \<Rightarrow> 'a st \<Rightarrow> 'a st" where
  "try_log_raise msg body w =
     (case body w of
        (Inl e, w') \<Rightarrow> (Inl e, w'\<lparr>logged := logged w' @ [(msg, e)]\<rparr>)
      | (Inr v, w') \<Rightarrow> (Inr v, w'))"

section \<open>The module \<^verbatim>\<open>ch_sbb\<close>\<close>

subsection \<open>Rail traffic information\<close>

definition TrafficInfoParams_fields :: "field list" where
  "TrafficInfoParams_fields =
    [ Field ''select'' (TOptional TStr) (Some VNone) None None,
      Field ''where'' (TOptional TStr) (Some VNone) None None,
      Field ''group_by'' (TOptional TStr) (Some VNone) None None,
      Field ''order_by'' (TOptional TStr) (Some VNone) None None,
      Field ''limit'' TInt (Some (VInt 10)) (Some 1) (Some 100),
      Field ''offset'' TInt (Some (VInt 0)) (Some 0) None,
      Field ''refine'' (TOptional TStr) (Some VNone) None None,
      Field ''exclude'' (TOptional TStr) (Some VNone) None None,
      Field ''lang'' (TOptional TStr) (Some VNone) None None,
      Field ''timezone'' TStr (Some (VStr ''UTC'')) None None,
      Field ''include_links'' TBool (Some (VBool False)) None None,
      Field ''include_app_metas'' TBool (Some (VBool False)) None None ]"

definition TrafficInfoParams :: "ext \<Rightarrow> exn + bag \<Rightarrow> exn + model" where
  "TrafficInfoParams X kw = construct X TrafficInfoParams_fields kw"

definition TrafficInfoResponse_fields :: "field list" where
  "TrafficInfoResponse_fields =
    [ Field ''total_count'' TInt None None None,
      Field ''results'' (TListOf ''TrafficInfoResult'') None None None ]"

definition TrafficInfoResponse :: "ext \<Rightarrow> exn + bag \<Rightarrow> exn + model" where
  "TrafficInfoResponse X kw = construct X TrafficInfoResponse_fields kw"

definition fetch_rail_traffic_info :: "ext \<Rightarrow> model \<Rightarrow> model st" where
  "fetch_rail_traffic_info X params =
     bind (httpx_get X (BASE_URL @ ''/catalog/datasets/rail-traffic-information/records'') (model_dump_exclude_none params)) (\<lambda>response.
     bind (lift (raise_for_status response)) (\<lambda>_.
     bind (lift (json response)) (\<lambda>payload.
       lift (TrafficInfoResponse X (expand_json payload)))))"

definition handle_rail_traffic_info :: handler where
  "handle_rail_traffic_info X arguments =
     try_log_raise ''Error fetching rail traffic info: ''
       (bind (lift (TrafficInfoParams X (expand arguments))) (\<lambda>params.
        bind (fetch_rail_traffic_info X params) (\<lambda>traffic_info_response.
        ret [TextContent (model_str X traffic_info_response)])))"

subsection \<open>Railway line information\<close>

definition RailwayLineParams_fields :: "field list" where
  "RailwayLineParams_fields =
    [ Field ''select'' (TOptional TStr) (Some VNone) None None,
      Field ''where'' (TOptional TStr) (Some VNone) None None,
      Field ''group_by'' (TOptional TStr) (Some VNone) None None,
      Field ''order_by'' (TOptional TStr) (Some VNone) None None,
      Field ''limit'' TInt (Some (VInt 10)) (Some 1) (Some 100),
      Field ''offset'' TInt (Some (VInt 0)) (Some 0) None ]"

definition RailwayLineParams :: "ext \<Rightarrow> exn + bag \<Rightarrow> exn + model" where
  "RailwayLineParams X kw = construct X RailwayLineParams_fields kw"

definition RailwayLineResponse_fields :: "field list" where
  "RailwayLineResponse_fields =
    [ Field ''total_count'' TInt None None None,
      Field ''results'' (TListOf ''RailwayLineResult'') None None None ]"

definition RailwayLineResponse :: "ext \<Rightarrow> exn + bag \<Rightarrow> exn + model" where
  "RailwayLineResponse X kw = construct X RailwayLineResponse_fields kw"

definition fetch_railway_lines :: "ext \<Rightarrow> model \<Rightarrow> model st" where
  "fetch_railway_lines X params =
     bind (httpx_get X (BASE_URL @ ''/catalog/datasets/linie/records'') (model_dump_exclude_none params)) (\<lambda>response.
     bind (lift (raise_for_status response)) (\<lambda>_.
     bind (lift (json response)) (\<lambda>payload.
       lift (RailwayLineResponse X (expand_json payload)))))"

definition handle_railway_lines :: handler where
  "handle_railway_lines X arguments =
     try_log_raise ''Error fetching railway lines: ''
       (bind (lift (RailwayLineParams X (expand arguments))) (\<lambda>params.
        bind (fetch_railway_lines X params) (\<lambda>railway_lines_response.
        ret [TextContent (model_str X railway_lines_response)])))"

subsection \<open>Rolling stock information\<close>

definition RollingStockParams_fields :: "field list" where
  "RollingStockParams_fields =
    [ Field ''select'' (TOptional TStr) (Some VNone) None None,
      Field ''where'' (TOptional TStr) (Some VNone) None None,
      Field ''group_by'' (TOptional TStr) (Some VNone) None None,
      Field ''order_by'' (TOptional TStr) (Some VNone) None None,
      Field ''limit'' TInt (Some (VInt 10)) (Some 1) (Some 100),
      Field ''offset'' TInt (Some (VInt 0)) (Some 0) None ]"

definition RollingStockParams :: "ext \<Rightarrow> exn + bag \<Rightarrow> exn + model" where
  "RollingStockParams X kw = construct X RollingStockParams_fields kw"

definition RollingStockResponse_fields :: "field list" where
  "RollingStockResponse_fields =
    [ Field ''total_count'' TInt None None None,
      Field ''results'' (TListOf ''RollingStockResult'') None None None ]"

definition RollingStockResponse :: "ext \<Rightarrow> exn + bag \<Rightarrow> exn + model" where
  "RollingStockResponse X kw = construct X RollingStockResponse_fields kw"

definition fetch_rolling_stock :: "ext \<Rightarrow> model \<Rightarrow> model st" where
  "fetch_rolling_stock X params =
     bind (httpx_get X (BASE_URL @ ''/catalog/datasets/rollmaterial/records'') (model_dump_exclude_none params)) (\<lambda>response.
     bind (lift (raise_for_status response)) (\<lambda>_.
     bind (lift (json response)) (\<lambda>payload.
       lift (RollingStockResponse X (expand_json payload)))))"

definition handle_rolling_stock :: handler where
  "handle_rolling_stock X arguments =
     try_log_raise ''Error fetching rolling stock info: ''
       (bind (lift (RollingStockParams X (expand arguments))) (\<lambda>params.
        bind (fetch_rolling_stock X params) (\<lambda>rolling_stock_response.
        ret [TextContent (model_str X rolling_stock_response)])))"

subsection \<open>Station users\<close>

definition StationUsersParams_fields :: "field list" where
  "StationUsersParams_fields =
    [ Field ''select'' (TOptional TStr) (Some VNone) None None,
      Field ''where'' (TOptional TStr) (Some VNone) None None,
      Field ''group_by'' (TOptional TStr) (Some VNone) None None,
      Field ''order_by'' (TOptional TStr) (Some VNone) None None,
      Field ''limit'' TInt (Some (VInt 10)) (Some 1) (Some 100),
      Field ''offset'' TInt (Some (VInt 0)) (Some 0) None,
      Field ''refine'' (TOptional TStr) (Some VNone) None None,
      Field ''exclude'' (TOptional TStr) (Some VNone) None None,
      Field ''lang'' (TOptional TStr) (Some VNone) None None,
      Field ''include_links'' TBool (Some (VBool False)) None None,
      Field ''include_app_metas'' TBool (Some (VBool False)) None None ]"

definition StationUsersParams :: "ext \<Rightarrow> exn + bag \<Rightarrow> exn + model" where
  "StationUsersParams X kw = construct X StationUsersParams_fields kw"

definition StationUsersResponse_fields :: "field list" where
  "StationUsersResponse_fields =
    [ Field ''total_count'' TInt None None None,
      Field ''results'' (TListOf ''StationUsersResult'') None None None ]"

definition StationUsersResponse :: "ext \<Rightarrow> exn + bag \<Rightarrow> exn + model" where
  "StationUsersResponse X kw = construct X StationUsersResponse_fields kw"

definition fetch_usage_data :: "ext \<Rightarrow> model \<Rightarrow> model st" where
  "fetch_usage_data X params =
     bind (httpx_get X (BASE_URL @ ''/catalog/datasets/anzahl-sbb-bahnhofbenutzer/records?limit=100'') (model_dump_exclude_none params)) (\<lambda>response.
     bind (lift (raise_for_status response)) (\<lambda>_.
     bind (lift (json response)) (\<lambda>payload.
       lift (StationUsersResponse X (expand_json payload)))))"

definition handle_station_users :: handler where
  "handle_station_users X arguments =
     try_log_raise ''Error handling endpoint: ''
       (bind (lift (StationUsersParams X (expand (or_empty arguments)))) (\<lambda>params.
        bind (fetch_usage_data X params) (\<lambda>response.
        ret [TextContent (model_str X response)])))"

subsection \<open>Target and actual compared\<close>

definition TargetActualComparedParams_fields :: "field list" where
  "TargetActualComparedParams_fields =
    [ Field ''select'' (TOptional TStr) (Some VNone) None None,
      Field ''where'' (TOptional TStr) (Some VNone) None None,
      Field ''group_by'' (TOptional TStr) (Some VNone) None None,
      Field ''order_by'' (TOptional TStr) (Some VNone) None None,
      Field ''limit'' TInt (Some (VInt 10)) (Some 1) (Some 100),
      Field ''offset'' TInt (Some (VInt 0)) (Some 0) None,
      Field ''refine'' (TOptional TStr) (Some VNone) None None,
      Field ''exclude'' (TOptional TStr) (Some VNone) None None,
      Field ''lang'' (TOptional TStr) (Some VNone) None None,
      Field ''include_links'' TBool (Some (VBool False)) None None,
      Field ''include_app_metas'' TBool (Some (VBool False)) None None ]"

definition TargetActualComparedParams :: "ext \<Rightarrow> exn + bag \<Rightarrow> exn + model" where
  "TargetActualComparedParams X kw = construct X TargetActualComparedParams_fields kw"

definition TargetActualComparedResponse_fields :: "field list" where
  "TargetActualComparedResponse_fields =
    [ Field ''total_count'' TInt None None None,
      Field ''results'' (TListOf ''TargetActualComparedResult'') None None None ]"

definition TargetActualComparedResponse :: "ext \<Rightarrow> exn + bag \<Rightarrow> exn + model" where
  "TargetActualComparedResponse X kw = construct X TargetActualComparedResponse_fields kw"

definition fetch_target_actual_compared :: "ext \<Rightarrow> model \<Rightarrow> model st" where
  "fetch_target_actual_compared X params =
     bind (httpx_get X (BASE_URL @ ''/catalog/datasets/ist-daten-sbb/records?limit=100'') (model_dump_exclude_none params)) (\<lambda>response.
     bind (lift (raise_for_status response)) (\<lambda>_.
     bind (lift (json response)) (\<lambda>payload.
       lift (TargetActualComparedResponse X (expand_json payload)))))"

definition handle_target_actual_compared :: handler where
  "handle_target_actual_compared X arguments =
     try_log_raise ''Error handling endpoint: ''
       (bind (lift (TargetActualComparedParams X (expand (or_empty arguments)))) (\<lambda>params.
        bind (fetch_target_actual_compared X params) (\<lambda>response.
        ret [TextContent (model_str X response)])))"

subsection \<open>Station furniture\<close>

definition StationFurnitureParams_fields :: "field list" where
  "StationFurnitureParams_fields =
    [ Field ''select'' (TOptional TStr) (Some VNone) None None,
      Field ''where'' (TOptional TStr) (Some VNone) None None,
      Field ''group_by'' (TOptional TStr) (Some VNone) None None,
      Field ''order_by'' (TOptional TStr) (Some VNone) None None,
      Field ''limit'' TInt (Some (VInt 10)) (Some 1) (Some 100),
      Field ''offset'' TInt (Some (VInt 0)) (Some 0) None,
      Field ''refine'' (TOptional TStr) (Some VNone) None None,
      Field ''exclude'' (TOptional TStr) (Some VNone) None None,
      Field ''lang'' (TOptional TStr) (Some VNone) None None,
      Field ''include_links'' TBool (Some (VBool False)) None None,
      Field ''include_app_metas'' TBool (Some (VBool False)) None None ]"

definition StationFurnitureParams :: "ext \<Rightarrow> exn + bag \<Rightarrow> exn + model" where
  "StationFurnitureParams X kw = construct X StationFurnitureParams_fields kw"

definition StationFurnitureResponse_fields :: "field list" where
  "StationFurnitureResponse_fields =
    [ Field ''total_count'' TInt None None None,
      Field ''results'' (TListOf ''StationFurnitureResult'') None None None ]"

definition StationFurnitureResponse :: "ext \<Rightarrow> exn + bag \<Rightarrow> exn + model" where
  "StationFurnitureResponse X kw = construct X StationFurnitureResponse_fields kw"

definition fetch_station_furnitures :: "ext \<Rightarrow> model \<Rightarrow> model st" where
  "fetch_station_furnitures X params =
     bind (httpx_get X (BASE_URL @ ''/catalog/datasets/mobiliar-im-bahnhof/records?limit=100'') (model_dump_exclude_none params)) (\<lambda>response.
     bind (lift (raise_for_status response)) (\<lambda>_.
     bind (lift (json response)) (\<lambda>payload.
       lift (StationFurnitureResponse X (expand_json payload)))))"

definition handle_station_furnitures :: handler where
  "handle_station_furnitures X arguments =
     try_log_raise ''Error handling endpoint: ''
       (bind (lift (StationFurnitureParams X (expand (or_empty arguments)))) (\<lambda>params.
        bind (fetch_station_furnitures X params) (\<lambda>response.
        ret [TextContent (model_str X response)])))"

subsection \<open>Station services\<close>

definition StationServiceParams_fields :: "field list" where
  "StationServiceParams_fields =
    [ Field ''select'' (TOptional TStr) (Some VNone) None None,
      Field ''where'' (TOptional TStr) (Some VNone) None None,
      Field ''group_by'' (TOptional TStr) (Some VNone) None None,
      Field ''order_by'' (TOptional TStr) (Some VNone) None None,
      Field ''limit'' TInt (Some (VInt 10)) (Some 1) (Some 100),
      Field ''offset'' TInt (Some (VInt 0)) (Some 0) None,
      Field ''refine'' (TOptional TStr) (Some VNone) None None,
      Field ''exclude'' (TOptional TStr) (Some VNone) None None,
      Field ''lang'' (TOptional TStr) (Some VNone) None None,
      Field ''include_links'' TBool (Some (VBool False)) None None,
      Field ''include_app_metas'' TBool (Some (VBool False)) None None ]"

definition StationServiceParams :: "ext \<Rightarrow> exn + bag \<Rightarrow> exn + model" where
  "StationServiceParams X kw = construct X StationServiceParams_fields kw"

definition StationServiceResponse_fields :: "field list" where
  "StationServiceResponse_fields =
    [ Field ''total_count'' TInt None None None,
      Field ''results'' (TListOf ''StationServiceResult'') None None None ]"

definition StationServiceResponse :: "ext \<Rightarrow> exn + bag \<Rightarrow> exn + model" where
  "StationServiceResponse X kw = construct X StationServiceResponse_fields kw"

definition fetch_station_services :: "ext \<Rightarrow> model \<Rightarrow> model st" where
  "fetch_station_services X params =
     bind (httpx_get X (BASE_URL @ ''/catalog/datasets/haltestelle-offnungszeiten/records?limit=100'') (model_dump_exclude_none params)) (\<lambda>response.
     bind (lift (raise_for_status response)) (\<lambda>_.
     bind (lift (json response)) (\<lambda>payload.
       lift (StationServiceResponse X (expand_json payload)))))"

definition handle_station_services :: handler where
  "handle_station_services X arguments =
     try_log_raise ''Error handling endpoint: ''
       (bind (lift (StationServiceParams X (expand (or_empty arguments)))) (\<lambda>params.
        bind (fetch_station_services X params) (\<lambda>response.
        ret [TextContent (model_str X response)])))"

subsection \<open>Station stores\<close>

definition StoresParams_fields :: "field list" where
  "StoresParams_fields =
    [ Field ''select'' (TOptional TStr) (Some VNone) None None,
      Field ''where'' (TOptional TStr) (Some VNone) None None,
      Field ''group_by'' (TOptional TStr) (Some VNone) None None,
      Field ''order_by'' (TOptional TStr) (Some VNone) None None,
      Field ''limit'' TInt (Some (VInt 10)) (Some 1) (Some 100),
      Field ''offset'' TInt (Some (VInt 0)) (Some 0) None,
      Field ''refine'' (TOptional TStr) (Some VNone) None None,
      Field ''exclude'' (TOptional TStr) (Some VNone) None None,
      Field ''lang'' (TOptional TStr) (Some VNone) None None,
      Field ''include_links'' TBool (Some (VBool False)) None None,
      Field ''include_app_metas'' TBool (Some (VBool False)) None None ]"

definition StoresParams :: "ext \<Rightarrow> exn + bag \<Rightarrow> exn + model" where
  "StoresParams X kw = construct X StoresParams_fields kw"

definition StoresResponse_fields :: "field list" where
  "StoresResponse_fields =
    [ Field ''total_count'' TInt None None None,
      Field ''results'' (TListOf ''StoresResult'') None None None ]"

definition StoresResponse :: "ext \<Rightarrow> exn + bag \<Rightarrow> exn + model" where
  "StoresResponse X kw = construct X StoresResponse_fields kw"

definition fetch_stores_data :: "ext \<Rightarrow> model \<Rightarrow> model st" where
  "fetch_stores_data X params =
     bind (httpx_get X (BASE_URL @ ''/catalog/datasets/offnungszeiten-shops/records?limit=100'') (model_dump_exclude_none params)) (\<lambda>response.
     bind (lift (raise_for_status response)) (\<lambda>_.
     bind (lift (json response)) (\<lambda>payload.
       lift (StoresResponse X (expand_json payload)))))"

definition hande_stores_data :: handler where
  "hande_stores_data X arguments =
     try_log_raise ''Error handling endpoint: ''
       (bind (lift (StoresParams X (expand (or_empty arguments)))) (\<lambda>params.
        bind (fetch_stores_data X params) (\<lambda>response.
        ret [TextContent (model_str X response)])))"

section \<open>The module \<^verbatim>\<open>glob_screeners\<close>\<close>

subsection \<open>The screener\<close>

text \<open>The module-level \<^verbatim>\<open>screener = yf.Screener()\<close>: \<^verbatim>\<open>set_predefined_body\<close> records the key
  asked for, and \<^verbatim>\<open>screener.response\<close> answers for the key set last.\<close>

definition set_predefined_body :: "pyval \<Rightarrow> unit st" where
  "set_predefined_body k w = (Inr (), w\<lparr>predefined := predefined w @ [k]\<rparr>)"

definition screener_response :: "ext \<Rightarrow> pyval st" where
  "screener_response X w =
     (case predefined w of
        [] \<Rightarrow> (Inl YFinanceError, w)
      | k # ks \<Rightarrow>
          (case yf_response X (last (k # ks)) of
             None \<Rightarrow> (Inl YFinanceError, w)
           | Some v \<Rightarrow> (Inr v, w)))"

fun getattr :: "model \<Rightarrow> string \<Rightarrow> exn + pyval" where
  "getattr m n = (case map_of m n of None \<Rightarrow> Inl AttributeError | Some v \<Rightarrow> Inr v)"

definition FincanceScreenerParams_fields :: "field list" where
  "FincanceScreenerParams_fields =
    [ Field ''screenerOptions'' TStr (Some (VStr ''day_gainers'')) None None ]"

definition FincanceScreenerParams :: "ext \<Rightarrow> exn + bag \<Rightarrow> exn + model" where
  "FincanceScreenerParams X kw = construct X FincanceScreenerParams_fields kw"

definition FincanceScreenerResponse_fields :: "field list" where
  "FincanceScreenerResponse_fields =
    [ Field ''count'' TInt None None None,
      Field ''quotes'' (TListOf ''FincanceScreenerResult'') None None None ]"

definition FincanceScreenerResponse :: "ext \<Rightarrow> exn + bag \<Rightarrow> exn + model" where
  "FincanceScreenerResponse X kw = construct X FincanceScreenerResponse_fields kw"

text \<open>The filter is read from a freshly constructed \<^verbatim>\<open>FincanceScreenerParams()\<close>, not from
  \<^verbatim>\<open>params\<close>.\<close>

definition fetch_screener_data :: "ext \<Rightarrow> model \<Rightarrow> model st" where
  "fetch_screener_data X params =
     bind (lift (FincanceScreenerParams X (Inr Map.empty))) (\<lambda>fresh.
     bind (lift (getattr fresh ''screenerOptions'')) (\<lambda>filter.
     bind (set_predefined_body filter) (\<lambda>_.
     bind (screener_response X) (\<lambda>response.
       lift (FincanceScreenerResponse X (expand_json response))))))"

definition handle_screenerdata :: handler where
  "handle_screenerdata X arguments =
     try_log_raise ''Error handling endpoint: ''
       (bind (lift (FincanceScreenerParams X (expand (or_empty arguments)))) (\<lambda>params.
        bind (fetch_screener_data X params) (\<lambda>response.
        ret [TextContent (model_str X response)])))"

section \<open>Registration\<close>

record tool =
  name :: string
  description :: string
  inputSchema :: "field list"

text \<open>The registration variables of a module: \<^verbatim>\<open>TOOLS\<close> and \<^verbatim>\<open>TOOLS_HANDLERS\<close>. Each endpoint
  section runs \<^verbatim>\<open>TOOLS.append(types.Tool(...))\<close> and then \<^verbatim>\<open>TOOLS_HANDLERS[name] = handler\<close>.\<close>

record registry =
  TOOLS :: "tool list"
  TOOLS_HANDLERS :: "string \<rightharpoonup> handler"

definition empty_registry :: registry where
  "empty_registry = \<lparr>TOOLS = [], TOOLS_HANDLERS = Map.empty\<rparr>"

definition append_tool :: "tool \<Rightarrow> registry \<Rightarrow> registry" where
  "append_tool t r = r\<lparr>TOOLS := TOOLS r @ [t]\<rparr>"

definition set_handler :: "string \<Rightarrow> handler \<Rightarrow> registry \<Rightarrow> registry" where
  "set_handler n h r = r\<lparr>TOOLS_HANDLERS := (TOOLS_HANDLERS r)(n \<mapsto> h)\<rparr>"

fun run_module :: "(registry \<Rightarrow> registry) list \<Rightarrow> registry \<Rightarrow> registry" where
  "run_module [] r = r"
| "run_module (s # ss) r = run_module ss (s r)"

definition ch_sbb :: registry where
  "ch_sbb = run_module
    [ append_tool \<lparr>name = ''rail-traffic-info'', description = ''Fetch rail traffic information'',
        inputSchema = TrafficInfoParams_fields\<rparr>,
      set_handler ''rail-traffic-info'' handle_rail_traffic_info,
      append_tool \<lparr>name = ''railway-lines'', description = ''Fetch railway line information'',
        inputSchema = RailwayLineParams_fields\<rparr>,
      set_handler ''railway-lines'' handle_railway_lines,
      append_tool \<lparr>name = ''rolling-stock'', description = ''Fetch rolling stock (vehicle) information'',
        inputSchema = RollingStockParams_fields\<rparr>,
      set_handler ''rolling-stock'' handle_rolling_stock,
      append_tool \<lparr>name = ''station-users'', description = ''Description of what this endpoint does'',
        inputSchema = StationUsersParams_fields\<rparr>,
      set_handler ''station-users'' handle_station_users,
      append_tool \<lparr>name = ''target-actual-compared'', description = ''Description of what this endpoint does'',
        inputSchema = TargetActualComparedParams_fields\<rparr>,
      set_handler ''target-actual-compared'' handle_target_actual_compared,
      append_tool \<lparr>name = ''station-furniture'', description = ''Description of what this endpoint does'',
        inputSchema = StationFurnitureParams_fields\<rparr>,
      set_handler ''station-furniture'' handle_station_furnitures,
      append_tool \<lparr>name = ''station-services'', description = ''Description of what this endpoint does'',
        inputSchema = StationServiceParams_fields\<rparr>,
      set_handler ''station-services'' handle_station_services,
      append_tool \<lparr>name = ''station-stores'', description = ''Description of what this endpoint does'',
        inputSchema = StoresParams_fields\<rparr>,
      set_handler ''station-stores'' hande_stores_data ]
    empty_registry"

definition glob_screeners :: registry where
  "glob_screeners = run_module
    [ append_tool \<lparr>name = ''stock-screendata'', description = ''Description of what this endpoint does'',
        inputSchema = FincanceScreenerParams_fields\<rparr>,
      set_handler ''stock-screendata'' handle_screenerdata ]
    empty_registry"

section \<open>What the caller of a handler observes\<close>

text \<open>
  The design document speaks of failures handed back as classified outcomes of three kinds. The
  kinds follow its words; no class of these names exists in either module. A Python caller
  of a handler (or of a fetch function) either gets the returned value or has the raised
  exception propagate to it; \<open>caller_sees\<close> never yields \<open>Classified\<close>.
\<close>

datatype error_kind = UpstreamUnavailable | UpstreamMalformedResponse | InternalFault

datatype 'a outcome = Returned 'a | Classified error_kind | Propagated exn

fun caller_sees :: "exn + 'a \<Rightarrow> 'a outcome" where
  "caller_sees (Inr v) = Returned v"
| "caller_sees (Inl e) = Propagated e"

section \<open>Stand-ins for the libraries and the network\<close>

text \<open>
  Concrete collaborators for running the model: the coercions of pydantic's strict mode (a
  value of exactly the declared type is taken as it is; the default lax mode accepts these
  values with the same result), result items accepted when they are dicts, a rendering that
  joins the field names, an unreachable host and a failing screener.
\<close>

definition strict_int :: "pyval \<Rightarrow> int option" where
  "strict_int v = (case v of VInt n \<Rightarrow> Some n | _ \<Rightarrow> None)"

definition strict_str :: "pyval \<Rightarrow> string option" where
  "strict_str v = (case v of VStr s \<Rightarrow> Some s | _ \<Rightarrow> None)"

definition strict_bool :: "pyval \<Rightarrow> bool option" where
  "strict_bool v = (case v of VBool b \<Rightarrow> Some b | _ \<Rightarrow> None)"

definition dict_item :: "string \<Rightarrow> pyval \<Rightarrow> pyval option" where
  "dict_item cls v = (case v of VDict kvs \<Rightarrow> Some v | _ \<Rightarrow> None)"

definition field_names :: "model \<Rightarrow> string" where
  "field_names m = concat (map (\<lambda>kv. fst kv @ '' '') m)"

definition offline :: ext where
  "offline = \<lparr>as_int = strict_int, as_str = strict_str, as_bool = strict_bool,
     as_model = dict_item, model_str = field_names,
     http_get = (\<lambda>req. NoReply), yf_response = (\<lambda>k. None)\<rparr>"

text \<open>An upstream that answers every request with the given status and body.\<close>

definition answering :: "nat \<Rightarrow> body \<Rightarrow> ext" where
  "answering code b = offline\<lparr>http_get := (\<lambda>req. Reply code b)\<rparr>"

text \<open>A screener that answers every predefined body with the given payload.\<close>

definition screening :: "pyval \<Rightarrow> ext" where
  "screening v = offline\<lparr>yf_response := (\<lambda>k. Some v)\<rparr>"

definition w0 :: world where
  "w0 = \<lparr>sent = [], predefined = [], logged = []\<rparr>"

section \<open>Properties of validation\<close>

lemma validate_field_ignores:
  "k \<noteq> fname f \<Longrightarrow> validate_field X (args(k \<mapsto> v)) f = validate_field X args f"
  by (cases f) simp

lemma validate_fields_ignores:
  "k \<notin> set (map fname fs) \<Longrightarrow>
     validate_fields X (args(k \<mapsto> v)) fs = validate_fields X args fs"
  by (induction fs) (simp_all add: validate_field_ignores)

lemma validate_ignores:
  "k \<notin> set (map fname fs) \<Longrightarrow> validate X fs (args(k \<mapsto> v)) = validate X fs args"
  by (simp add: validate_def validate_fields_ignores)

lemma validate_field_names:
  "validate_field X args f = Inl e \<Longrightarrow> fst ` set e \<subseteq> {fname f}"
  by (cases f) (auto split: option.splits list.splits)

lemma validate_fields_names:
  "fst ` set (fst (validate_fields X args fs)) \<subseteq> fname ` set fs \<and>
   fst ` set (snd (validate_fields X args fs)) \<subseteq> fname ` set fs"
proof (induction fs)
  case Nil
  show ?case by simp
next
  case (Cons f fs)
  obtain es m where r: "validate_fields X args fs = (es, m)"
    by (cases "validate_fields X args fs")
  with Cons have ih: "fst ` set es \<subseteq> fname ` set fs" "fst ` set m \<subseteq> fname ` set fs"
    by simp_all
  show ?case
  proof (cases "validate_field X args f")
    case (Inl e)
    from validate_field_names [OF Inl] have "fst ` set e \<subseteq> {fname f}" .
    with ih Inl r show ?thesis
      by (simp add: image_Un) blast
  next
    case (Inr v)
    with ih r show ?thesis
      by simp blast
  qed
qed

lemma validate_fields_errors:
  "validate_field X args f = Inl e \<Longrightarrow> f \<in> set fs \<Longrightarrow>
     set e \<subseteq> set (fst (validate_fields X args fs))"
  by (induction fs) (auto split: prod.splits sum.splits)

lemma validate_Inr_names:
  "validate X fs args = Inr m \<Longrightarrow> fst ` set m \<subseteq> fname ` set fs"
proof -
  assume a: "validate X fs args = Inr m"
  then have "m = snd (validate_fields X args fs)"
    by (auto simp: validate_def split: prod.splits list.splits)
  then show ?thesis
    using validate_fields_names [of X args fs] by simp
qed

lemma validate_Inl_names:
  "validate X fs args = Inl e \<Longrightarrow> \<exists>es. e = ValidationError es \<and> es \<noteq> [] \<and> fst ` set es \<subseteq> fname ` set fs"
proof -
  assume a: "validate X fs args = Inl e"
  then have "e = ValidationError (fst (validate_fields X args fs)) \<and> fst (validate_fields X args fs) \<noteq> []"
    by (auto simp: validate_def split: prod.splits list.splits)
  then show ?thesis
    using validate_fields_names [of X args fs] by blast
qed

section \<open>Unknown argument fields\<close>

text \<open>
  C5: a key of the argument bag that the tool's input model does not declare is ignored: the
  outcome of validation is the same with and without it, so validation succeeds whenever it
  succeeds on the declared fields alone; the key is not a field of the validated arguments,
  and no line of a validation error names it.
\<close>

theorem unknown_field_ignored:
  assumes "k \<notin> fname ` set fs"
  shows "construct X fs (Inr (args(k \<mapsto> v))) = construct X fs (Inr args)
    \<and> (\<forall>m. construct X fs (Inr (args(k \<mapsto> v))) = Inr m \<longrightarrow> k \<notin> fst ` set m)
    \<and> (\<forall>es. construct X fs (Inr (args(k \<mapsto> v))) = Inl (ValidationError es) \<longrightarrow> k \<notin> fst ` set es)"
proof -
  from assms have eq: "validate X fs (args(k \<mapsto> v)) = validate X fs args"
    by (simp add: validate_ignores)
  have "k \<notin> fst ` set m" if "validate X fs args = Inr m" for m
    using validate_Inr_names [OF that] assms by blast
  moreover have "k \<notin> fst ` set es" if "validate X fs args = Inl (ValidationError es)" for es
    using validate_Inl_names [OF that] assms by blast
  ultimately show ?thesis
    by (simp add: construct_def eq)
qed

text \<open>The rail traffic model, called with \<^verbatim>\<open>limit=5\<close> and an undeclared \<^verbatim>\<open>verbose=True\<close>.\<close>

theorem unknown_field_ignored_witness:
  "TrafficInfoParams offline (Inr [''limit'' \<mapsto> VInt 5, ''verbose'' \<mapsto> VBool True])
     = TrafficInfoParams offline (Inr [''limit'' \<mapsto> VInt 5])
   \<and> map_of (projr (TrafficInfoParams offline (Inr [''limit'' \<mapsto> VInt 5, ''verbose'' \<mapsto> VBool True]))) ''verbose'' = None
   \<and> map_of (projr (TrafficInfoParams offline (Inr [''limit'' \<mapsto> VInt 5, ''verbose'' \<mapsto> VBool True]))) ''limit'' = Some (VInt 5)"
proof -
  have k: "''verbose'' \<notin> fname ` set TrafficInfoParams_fields"
    by (simp add: TrafficInfoParams_fields_def)
  have "TrafficInfoParams offline (Inr [''limit'' \<mapsto> VInt 5, ''verbose'' \<mapsto> VBool True])
     = TrafficInfoParams offline (Inr [''limit'' \<mapsto> VInt 5])"
    using unknown_field_ignored [OF k, of offline "[''limit'' \<mapsto> VInt 5]" "VBool True"]
    by (simp add: TrafficInfoParams_def)
  moreover have "TrafficInfoParams offline (Inr [''limit'' \<mapsto> VInt 5]) = Inr 
    [(''select'', VNone), (''where'', VNone), (''group_by'', VNone), (''order_by'', VNone),
     (''limit'', VInt 5), (''offset'', VInt 0), (''refine'', VNone), (''exclude'', VNone),
     (''lang'', VNone), (''timezone'', VStr ''UTC''), (''include_links'', VBool False),
     (''include_app_metas'', VBool False)]"
    by (simp add: TrafficInfoParams_def construct_def validate_def TrafficInfoParams_fields_def
        check_bounds_def offline_def strict_int_def)
  ultimately show ?thesis by simp
qed

section \<open>Defaults\<close>

lemma validate_field_optional_str:
  assumes "\<forall>v. args k = Some v \<longrightarrow> v = VNone \<or> as_str X v \<noteq> None"
  shows "validate_field X args (Field k (TOptional TStr) (Some VNone) None None) =
     Inr (case args k of None \<Rightarrow> VNone
          | Some v \<Rightarrow> if v = VNone then VNone else VStr (the (as_str X v)))"
proof (cases "args k")
  case None
  then show ?thesis by simp
next
  case (Some v)
  with assms have "v = VNone \<or> as_str X v \<noteq> None" by simp
  with Some show ?thesis
    by (auto simp: check_bounds_def)
qed

lemma validate_field_str:
  assumes "\<forall>v. args k = Some v \<longrightarrow> as_str X v \<noteq> None"
  shows "validate_field X args (Field k TStr (Some d) None None) =
     Inr (case args k of None \<Rightarrow> d | Some v \<Rightarrow> VStr (the (as_str X v)))"
proof (cases "args k")
  case None
  then show ?thesis by simp
next
  case (Some v)
  with assms have "as_str X v \<noteq> None" by simp
  with Some show ?thesis
    by (auto simp: check_bounds_def)
qed

lemma validate_field_bool:
  assumes "\<forall>v. args k = Some v \<longrightarrow> as_bool X v \<noteq> None"
  shows "validate_field X args (Field k TBool (Some d) None None) =
     Inr (case args k of None \<Rightarrow> d | Some v \<Rightarrow> VBool (the (as_bool X v)))"
proof (cases "args k")
  case None
  then show ?thesis by simp
next
  case (Some v)
  with assms have "as_bool X v \<noteq> None" by simp
  with Some show ?thesis
    by (auto simp: check_bounds_def)
qed

lemma validate_field_int_between:
  assumes "\<forall>v. args k = Some v \<longrightarrow> (\<exists>n. as_int X v = Some n \<and> lo \<le> n \<and> n \<le> hi)"
  shows "validate_field X args (Field k TInt (Some d) (Some lo) (Some hi)) =
     Inr (case args k of None \<Rightarrow> d | Some v \<Rightarrow> VInt (the (as_int X v)))"
proof (cases "args k")
  case None
  then show ?thesis by simp
next
  case (Some v)
  with assms obtain n where "as_int X v = Some n" "lo \<le> n" "n \<le> hi" by auto
  with Some show ?thesis
    by (simp add: check_bounds_def)
qed

lemma validate_field_int_from:
  assumes "\<forall>v. args k = Some v \<longrightarrow> (\<exists>n. as_int X v = Some n \<and> lo \<le> n)"
  shows "validate_field X args (Field k TInt (Some d) (Some lo) None) =
     Inr (case args k of None \<Rightarrow> d | Some v \<Rightarrow> VInt (the (as_int X v)))"
proof (cases "args k")
  case None
  then show ?thesis by simp
next
  case (Some v)
  with assms obtain n where "as_int X v = Some n" "lo \<le> n" by auto
  with Some show ?thesis
    by (simp add: check_bounds_def)
qed

text \<open>
  C4: an argument bag for rail-traffic-info whose supplied fields have the declared types and
  respect the declared bounds validates, and every field it omits takes its declared default:
  \<^verbatim>\<open>limit\<close> 10, \<^verbatim>\<open>offset\<close> 0, \<^verbatim>\<open>timezone\<close> "UTC", the two flags false, the optional strings
  \<^verbatim>\<open>None\<close>.
\<close>

theorem defaults_applied:
  assumes lim: "\<forall>v. args ''limit'' = Some v \<longrightarrow> (\<exists>n. as_int X v = Some n \<and> 1 \<le> n \<and> n \<le> 100)"
    and off: "\<forall>v. args ''offset'' = Some v \<longrightarrow> (\<exists>n. as_int X v = Some n \<and> 0 \<le> n)"
    and tz: "\<forall>v. args ''timezone'' = Some v \<longrightarrow> as_str X v \<noteq> None"
    and strs: "\<forall>k \<in> {''select'', ''where'', ''group_by'', ''order_by'', ''refine'', ''exclude'', ''lang''}.
                 \<forall>v. args k = Some v \<longrightarrow> v = VNone \<or> as_str X v \<noteq> None"
    and flags: "\<forall>k \<in> {''include_links'', ''include_app_metas''}.
                 \<forall>v. args k = Some v \<longrightarrow> as_bool X v \<noteq> None"
  shows "\<exists>p. TrafficInfoParams X (Inr args) = Inr p
    \<and> map fst p = map fname TrafficInfoParams_fields
    \<and> (args ''limit'' = None \<longrightarrow> map_of p ''limit'' = Some (VInt 10))
    \<and> (args ''offset'' = None \<longrightarrow> map_of p ''offset'' = Some (VInt 0))
    \<and> (args ''timezone'' = None \<longrightarrow> map_of p ''timezone'' = Some (VStr ''UTC''))
    \<and> (args ''include_links'' = None \<longrightarrow> map_of p ''include_links'' = Some (VBool False))
    \<and> (args ''include_app_metas'' = None \<longrightarrow> map_of p ''include_app_metas'' = Some (VBool False))
    \<and> (\<forall>k \<in> {''select'', ''where'', ''group_by'', ''order_by'', ''refine'', ''exclude'', ''lang''}.
          args k = None \<longrightarrow> map_of p k = Some VNone)"
proof -
  note s = validate_field_optional_str [of args _ X]
  have f1: "validate_field X args (Field ''select'' (TOptional TStr) (Some VNone) None None) =
     Inr (case args ''select'' of None \<Rightarrow> VNone
          | Some v \<Rightarrow> if v = VNone then VNone else VStr (the (as_str X v)))"
    using strs by (intro s) simp
  have f2: "validate_field X args (Field ''where'' (TOptional TStr) (Some VNone) None None) =
     Inr (case args ''where'' of None \<Rightarrow> VNone
          | Some v \<Rightarrow> if v = VNone then VNone else VStr (the (as_str X v)))"
    using strs by (intro s) simp
  have f3: "validate_field X args (Field ''group_by'' (TOptional TStr) (Some VNone) None None) =
     Inr (case args ''group_by'' of None \<Rightarrow> VNone
          | Some v \<Rightarrow> if v = VNone then VNone else VStr (the (as_str X v)))"
    using strs by (intro s) simp
  have f4: "validate_field X args (Field ''order_by'' (TOptional TStr) (Some VNone) None None) =
     Inr (case args ''order_by'' of None \<Rightarrow> VNone
          | Some v \<Rightarrow> if v = VNone then VNone else VStr (the (as_str X v)))"
    using strs by (intro s) simp
  have f5: "validate_field X args (Field ''limit'' TInt (Some (VInt 10)) (Some 1) (Some 100)) =
     Inr (case args ''limit'' of None \<Rightarrow> VInt 10 | Some v \<Rightarrow> VInt (the (as_int X v)))"
    using lim by (rule validate_field_int_between)
  have f6: "validate_field X args (Field ''offset'' TInt (Some (VInt 0)) (Some 0) None) =
     Inr (case args ''offset'' of None \<Rightarrow> VInt 0 | Some v \<Rightarrow> VInt (the (as_int X v)))"
    using off by (rule validate_field_int_from)
  have f7: "validate_field X args (Field ''refine'' (TOptional TStr) (Some VNone) None None) =
     Inr (case args ''refine'' of None \<Rightarrow> VNone
          | Some v \<Rightarrow> if v = VNone then VNone else VStr (the (as_str X v)))"
    using strs by (intro s) simp
  have f8: "validate_field X args (Field ''exclude'' (TOptional TStr) (Some VNone) None None) =
     Inr (case args ''exclude'' of None \<Rightarrow> VNone
          | Some v \<Rightarrow> if v = VNone then VNone else VStr (the (as_str X v)))"
    using strs by (intro s) simp
  have f9: "validate_field X args (Field ''lang'' (TOptional TStr) (Some VNone) None None) =
     Inr (case args ''lang'' of None \<Rightarrow> VNone
          | Some v \<Rightarrow> if v = VNone then VNone else VStr (the (as_str X v)))"
    using strs by (intro s) simp
  have f10: "validate_field X args (Field ''timezone'' TStr (Some (VStr ''UTC'')) None None) =
     Inr (case args ''timezone'' of None \<Rightarrow> VStr ''UTC'' | Some v \<Rightarrow> VStr (the (as_str X v)))"
    using tz by (rule validate_field_str)
  have f11: "validate_field X args (Field ''include_links'' TBool (Some (VBool False)) None None) =
     Inr (case args ''include_links'' of None \<Rightarrow> VBool False
          | Some v \<Rightarrow> VBool (the (as_bool X v)))"
    using flags by (intro validate_field_bool) simp
  have f12: "validate_field X args (Field ''include_app_metas'' TBool (Some (VBool False)) None None) =
     Inr (case args ''include_app_metas'' of None \<Rightarrow> VBool False
          | Some v \<Rightarrow> VBool (the (as_bool X v)))"
    using flags by (intro validate_field_bool) simp
  have "validate_fields X args TrafficInfoParams_fields = ([],
    [(''select'', case args ''select'' of None \<Rightarrow> VNone
          | Some v \<Rightarrow> if v = VNone then VNone else VStr (the (as_str X v))),
     (''where'', case args ''where'' of None \<Rightarrow> VNone
          | Some v \<Rightarrow> if v = VNone then VNone else VStr (the (as_str X v))),
     (''group_by'', case args ''group_by'' of None \<Rightarrow> VNone
          | Some v \<Rightarrow> if v = VNone then VNone else VStr (the (as_str X v))),
     (''order_by'', case args ''order_by'' of None \<Rightarrow> VNone
          | Some v \<Rightarrow> if v = VNone then VNone else VStr (the (as_str X v))),
     (''limit'', case args ''limit'' of None \<Rightarrow> VInt 10 | Some v \<Rightarrow> VInt (the (as_int X v))),
     (''offset'', case args ''offset'' of None \<Rightarrow> VInt 0 | Some v \<Rightarrow> VInt (the (as_int X v))),
     (''refine'', case args ''refine'' of None \<Rightarrow> VNone
          | Some v \<Rightarrow> if v = VNone then VNone else VStr (the (as_str X v))),
     (''exclude'', case args ''exclude'' of None \<Rightarrow> VNone
          | Some v \<Rightarrow> if v = VNone then VNone else VStr (the (as_str X v))),
     (''lang'', case args ''lang'' of None \<Rightarrow> VNone
          | Some v \<Rightarrow> if v = VNone then VNone else VStr (the (as_str X v))),
     (''timezone'', case args ''timezone'' of None \<Rightarrow> VStr ''UTC''
          | Some v \<Rightarrow> VStr (the (as_str X v))),
     (''include_links'', case args ''include_links'' of None \<Rightarrow> VBool False
          | Some v \<Rightarrow> VBool (the (as_bool X v))),
     (''include_app_metas'', case args ''include_app_metas'' of None \<Rightarrow> VBool False
          | Some v \<Rightarrow> VBool (the (as_bool X v)))])"
    unfolding TrafficInfoParams_fields_def validate_fields.simps f1 f2 f3 f4 f5 f6 f7 f8 f9 f10 f11 f12
    by (simp only: prod.case sum.case field.sel)
  then show ?thesis
    by (simp add: TrafficInfoParams_def construct_def validate_def TrafficInfoParams_fields_def)
qed

text \<open>The bag \<^verbatim>\<open>{limit: 5}\<close>: every other field takes its default.\<close>

theorem defaults_applied_witness:
  "\<exists>p. TrafficInfoParams offline (Inr [''limit'' \<mapsto> VInt 5]) = Inr p
    \<and> map fst p = [''select'', ''where'', ''group_by'', ''order_by'', ''limit'', ''offset'',
         ''refine'', ''exclude'', ''lang'', ''timezone'', ''include_links'', ''include_app_metas'']
    \<and> map_of p ''offset'' = Some (VInt 0)
    \<and> map_of p ''timezone'' = Some (VStr ''UTC'')
    \<and> map_of p ''include_links'' = Some (VBool False)
    \<and> map_of p ''include_app_metas'' = Some (VBool False)
    \<and> map_of p ''select'' = Some VNone
    \<and> map_of p ''lang'' = Some VNone"
proof -
  let ?args = "[''limit'' \<mapsto> VInt 5]"
  have "\<exists>p. TrafficInfoParams offline (Inr ?args) = Inr p
    \<and> map fst p = map fname TrafficInfoParams_fields
    \<and> (?args ''limit'' = None \<longrightarrow> map_of p ''limit'' = Some (VInt 10))
    \<and> (?args ''offset'' = None \<longrightarrow> map_of p ''offset'' = Some (VInt 0))
    \<and> (?args ''timezone'' = None \<longrightarrow> map_of p ''timezone'' = Some (VStr ''UTC''))
    \<and> (?args ''include_links'' = None \<longrightarrow> map_of p ''include_links'' = Some (VBool False))
    \<and> (?args ''include_app_metas'' = None \<longrightarrow> map_of p ''include_app_metas'' = Some (VBool False))
    \<and> (\<forall>k \<in> {''select'', ''where'', ''group_by'', ''order_by'', ''refine'', ''exclude'', ''lang''}.
          ?args k = None \<longrightarrow> map_of p k = Some VNone)"
    by (rule defaults_applied) (simp_all add: offline_def strict_int_def)
  then obtain p where a: "TrafficInfoParams offline (Inr ?args) = Inr p"
    and b: "map fst p = map fname TrafficInfoParams_fields"
    and c: "?args ''offset'' = None \<longrightarrow> map_of p ''offset'' = Some (VInt 0)"
    and d: "?args ''timezone'' = None \<longrightarrow> map_of p ''timezone'' = Some (VStr ''UTC'')"
    and e: "?args ''include_links'' = None \<longrightarrow> map_of p ''include_links'' = Some (VBool False)"
    and f: "?args ''include_app_metas'' = None \<longrightarrow> map_of p ''include_app_metas'' = Some (VBool False)"
    and g: "\<forall>k \<in> {''select'', ''where'', ''group_by'', ''order_by'', ''refine'', ''exclude'', ''lang''}.
          ?args k = None \<longrightarrow> map_of p k = Some VNone"
    by (elim exE conjE)
  from b have b': "map fst p = [''select'', ''where'', ''group_by'', ''order_by'', ''limit'', ''offset'',
         ''refine'', ''exclude'', ''lang'', ''timezone'', ''include_links'', ''include_app_metas'']"
    by (simp add: TrafficInfoParams_fields_def)
  from c have c': "map_of p ''offset'' = Some (VInt 0)" by simp
  from d have d': "map_of p ''timezone'' = Some (VStr ''UTC'')" by simp
  from e have e': "map_of p ''include_links'' = Some (VBool False)" by simp
  from f have f': "map_of p ''include_app_metas'' = Some (VBool False)" by simp
  from g have "?args ''select'' = None \<longrightarrow> map_of p ''select'' = Some VNone" by (rule bspec) simp
  then have g1: "map_of p ''select'' = Some VNone" by simp
  from g have "?args ''lang'' = None \<longrightarrow> map_of p ''lang'' = Some VNone" by (rule bspec) simp
  then have g2: "map_of p ''lang'' = Some VNone" by simp
  show ?thesis
    by (rule exI [of _ p]) (simp only: a b' c' d' e' f' g1 g2 simp_thms)
qed

section \<open>Bounds\<close>

lemma TrafficInfoParams_limit_error:
  assumes "args ''limit'' = Some v" "as_int X v = Some n" "n < 1 \<or> 100 < n"
  shows "\<exists>es. validate X TrafficInfoParams_fields args = Inl (ValidationError es)
    \<and> ((''limit'', GreaterThanEqual 1) \<in> set es \<or> (''limit'', LessThanEqual 100) \<in> set es)"
proof -
  let ?f = "Field ''limit'' TInt (Some (VInt 10)) (Some 1) (Some 100)"
  let ?e = "if n < 1 then [(''limit'', GreaterThanEqual 1)] else [(''limit'', LessThanEqual 100)]"
  let ?es = "fst (validate_fields X args TrafficInfoParams_fields)"
  from assms have "validate_field X args ?f = Inl ?e"
    by (auto simp: check_bounds_def)
  moreover have "?f \<in> set TrafficInfoParams_fields"
    by (simp add: TrafficInfoParams_fields_def)
  ultimately have sub: "set ?e \<subseteq> set ?es"
    by (rule validate_fields_errors)
  then have ne: "?es \<noteq> []"
    by (auto split: if_splits)
  then have "validate X TrafficInfoParams_fields args = Inl (ValidationError ?es)"
    by (cases "validate_fields X args TrafficInfoParams_fields")
      (auto simp: validate_def split: list.splits)
  moreover from sub have "(''limit'', GreaterThanEqual 1) \<in> set ?es \<or> (''limit'', LessThanEqual 100) \<in> set ?es"
    by (auto split: if_splits)
  ultimately show ?thesis by blast
qed

text \<open>
  C2: when the \<^verbatim>\<open>limit\<close> of a rail-traffic-info call is an integer outside 1..100, building
  \<^verbatim>\<open>TrafficInfoParams\<close> raises a validation error with a line that names \<^verbatim>\<open>limit\<close> and the
  violated bound; the handler logs it and raises it, and no request is sent.
\<close>

theorem limit_out_of_range_rejected:
  assumes "args ''limit'' = Some v" and "as_int X v = Some n" and "n < 1 \<or> 100 < n"
  shows "\<exists>es. TrafficInfoParams X (expand (Some args)) = Inl (ValidationError es)
    \<and> ((''limit'', GreaterThanEqual 1) \<in> set es \<or> (''limit'', LessThanEqual 100) \<in> set es)
    \<and> handle_rail_traffic_info X (Some args) w =
        (Inl (ValidationError es),
         w\<lparr>logged := logged w @ [(''Error fetching rail traffic info: '', ValidationError es)]\<rparr>)
    \<and> sent (snd (handle_rail_traffic_info X (Some args) w)) = sent w"
proof -
  from assms TrafficInfoParams_limit_error [of args v X n] obtain es where
    es: "validate X TrafficInfoParams_fields args = Inl (ValidationError es)"
      "(''limit'', GreaterThanEqual 1) \<in> set es \<or> (''limit'', LessThanEqual 100) \<in> set es"
    by blast
  from es(1) have c: "TrafficInfoParams X (expand (Some args)) = Inl (ValidationError es)"
    by (simp add: TrafficInfoParams_def construct_def)
  then have h: "handle_rail_traffic_info X (Some args) w =
        (Inl (ValidationError es),
         w\<lparr>logged := logged w @ [(''Error fetching rail traffic info: '', ValidationError es)]\<rparr>)"
    by (simp add: handle_rail_traffic_info_def try_log_raise_def bind_def lift_def)
  from c es(2) h show ?thesis by simp
qed

text \<open>The call \<^verbatim>\<open>{limit: 500}\<close> against an upstream that would answer: nothing is sent.\<close>

theorem limit_out_of_range_rejected_witness:
  "\<exists>es. handle_rail_traffic_info (answering 200 (Json (VDict []))) (Some [''limit'' \<mapsto> VInt 500]) w0 =
        (Inl (ValidationError es),
         w0\<lparr>logged := logged w0 @ [(''Error fetching rail traffic info: '', ValidationError es)]\<rparr>)
    \<and> ((''limit'', GreaterThanEqual 1) \<in> set es \<or> (''limit'', LessThanEqual 100) \<in> set es)
    \<and> sent (snd (handle_rail_traffic_info (answering 200 (Json (VDict []))) (Some [''limit'' \<mapsto> VInt 500]) w0)) = []"
proof -
  have h1: "[''limit'' \<mapsto> VInt 500] ''limit'' = Some (VInt 500)"
    by simp
  have h2: "as_int (answering 200 (Json (VDict []))) (VInt 500) = Some 500"
    by (simp add: answering_def offline_def strict_int_def)
  have h3: "(500::int) < 1 \<or> 100 < (500::int)"
    by simp
  have "sent w0 = []"
    by (simp add: w0_def)
  with h1 h2 h3 limit_out_of_range_rejected [where args = "[''limit'' \<mapsto> VInt 500]"
      and v = "VInt 500" and X = "answering 200 (Json (VDict []))" and n = 500 and w = w0]
  show ?thesis
    by auto
qed

section \<open>The registries\<close>

text \<open>
  C6: after the registration statements of a module have run, the names in \<^verbatim>\<open>TOOLS\<close> are
  pairwise distinct and are exactly the keys of \<^verbatim>\<open>TOOLS_HANDLERS\<close>, in \<^verbatim>\<open>ch_sbb\<close> and in
  \<^verbatim>\<open>glob_screeners\<close>; an enumeration of \<^verbatim>\<open>TOOLS\<close> lists the names in registration order.
\<close>

theorem registry_names_unique_and_matched:
  "distinct (map name (TOOLS ch_sbb))
   \<and> set (map name (TOOLS ch_sbb)) = dom (TOOLS_HANDLERS ch_sbb)
   \<and> map name (TOOLS ch_sbb) =
       [''rail-traffic-info'', ''railway-lines'', ''rolling-stock'', ''station-users'',
        ''target-actual-compared'', ''station-furniture'', ''station-services'', ''station-stores'']
   \<and> distinct (map name (TOOLS glob_screeners))
   \<and> set (map name (TOOLS glob_screeners)) = dom (TOOLS_HANDLERS glob_screeners)
   \<and> map name (TOOLS glob_screeners) = [''stock-screendata'']"
proof -
  have n: "map name (TOOLS ch_sbb) =
       [''rail-traffic-info'', ''railway-lines'', ''rolling-stock'', ''station-users'',
        ''target-actual-compared'', ''station-furniture'', ''station-services'', ''station-stores'']"
    by (simp add: ch_sbb_def append_tool_def set_handler_def empty_registry_def)
  have d: "dom (TOOLS_HANDLERS ch_sbb) =
       {''station-stores'', ''station-services'', ''station-furniture'', ''target-actual-compared'',
        ''station-users'', ''rolling-stock'', ''railway-lines'', ''rail-traffic-info''}"
    by (simp add: ch_sbb_def append_tool_def set_handler_def empty_registry_def)
  have r: "set [a, b, c, d, e, f, g, h] = {h, g, f, e, d, c, b, a}" for a b c d e f g h :: string
    by auto
  have n': "map name (TOOLS glob_screeners) = [''stock-screendata'']"
    by (simp add: glob_screeners_def append_tool_def set_handler_def empty_registry_def)
  have d': "dom (TOOLS_HANDLERS glob_screeners) = {''stock-screendata''}"
    by (simp add: glob_screeners_def append_tool_def set_handler_def empty_registry_def)
  have "distinct (map name (TOOLS ch_sbb))"
    unfolding n by simp
  moreover have "set (map name (TOOLS ch_sbb)) = dom (TOOLS_HANDLERS ch_sbb)"
    unfolding n d by (rule r)
  moreover have "distinct (map name (TOOLS glob_screeners))"
    unfolding n' by simp
  moreover have "set (map name (TOOLS glob_screeners)) = dom (TOOLS_HANDLERS glob_screeners)"
    unfolding n' d' by simp
  ultimately show ?thesis
    using n n' by blast
qed

section \<open>The screener's filter\<close>

text \<open>
  C8: \<^verbatim>\<open>fetch_screener_data\<close> does not read its argument: for any two parameter values it
  does the same thing, and the predefined body it sets on the screener is \<^verbatim>\<open>day_gainers\<close>, the
  default of a fresh \<^verbatim>\<open>FincanceScreenerParams()\<close>.
\<close>

theorem screener_filter_fixed:
  "fetch_screener_data X p1 w = fetch_screener_data X p2 w
   \<and> predefined (snd (fetch_screener_data X p1 w)) = predefined w @ [VStr ''day_gainers'']"
proof -
  have "FincanceScreenerParams X (Inr Map.empty) = Inr [(''screenerOptions'', VStr ''day_gainers'')]"
    by (simp add: FincanceScreenerParams_def construct_def validate_def FincanceScreenerParams_fields_def)
  then have "predefined (snd (fetch_screener_data X p1 w)) = predefined w @ [VStr ''day_gainers'']"
    by (simp add: fetch_screener_data_def bind_def lift_def set_predefined_body_def
        screener_response_def split: list.splits option.splits)
  then show ?thesis
    by (simp add: fetch_screener_data_def)
qed

text \<open>A screener that answers; one call asks for \<^verbatim>\<open>top_mutual_funds\<close>, the other for the
  default.\<close>

theorem screener_filter_fixed_witness:
  "fetch_screener_data (screening (VDict [(''count'', VInt 0), (''quotes'', VList [])]))
       [(''screenerOptions'', VStr ''top_mutual_funds'')] w0
     = fetch_screener_data (screening (VDict [(''count'', VInt 0), (''quotes'', VList [])]))
       [(''screenerOptions'', VStr ''day_gainers'')] w0
   \<and> predefined (snd (fetch_screener_data
       (screening (VDict [(''count'', VInt 0), (''quotes'', VList [])]))
       [(''screenerOptions'', VStr ''top_mutual_funds'')] w0)) = [VStr ''day_gainers'']"
proof -
  have e: "predefined w0 = []"
    by (simp add: w0_def)
  note t = screener_filter_fixed [of "screening (VDict [(''count'', VInt 0), (''quotes'', VList [])])"
      "[(''screenerOptions'', VStr ''top_mutual_funds'')]" w0
      "[(''screenerOptions'', VStr ''day_gainers'')]"]
  from t [THEN conjunct2] e have "predefined (snd (fetch_screener_data
       (screening (VDict [(''count'', VInt 0), (''quotes'', VList [])]))
       [(''screenerOptions'', VStr ''top_mutual_funds'')] w0)) = [VStr ''day_gainers'']"
    by (simp only: append_Nil)
  with t [THEN conjunct1] show ?thesis
    by (rule conjI)
qed

section \<open>The limit in the URL and in the query\<close>

lemma validate_field_Inl_nonempty:
  "validate_field X args f = Inl e \<Longrightarrow> e \<noteq> []"
  by (cases f) (auto split: option.splits list.splits)

lemma validate_fields_no_errors:
  "fst (validate_fields X args fs) = [] \<Longrightarrow> f \<in> set fs \<Longrightarrow>
     \<exists>v. validate_field X args f = Inr v \<and> (fname f, v) \<in> set (snd (validate_fields X args fs))"
proof (induction fs)
  case Nil
  then show ?case by simp
next
  case (Cons g fs)
  obtain es m where r: "validate_fields X args fs = (es, m)"
    by (cases "validate_fields X args fs")
  show ?case
  proof (cases "validate_field X args g")
    case (Inl e)
    with validate_field_Inl_nonempty [OF Inl] Cons.prems(1) r show ?thesis
      by simp
  next
    case (Inr v)
    with Cons.prems(1) r have es: "es = []" by simp
    show ?thesis
    proof (cases "f = g")
      case True
      with Inr r show ?thesis by simp
    next
      case False
      with Cons.prems(2) have "f \<in> set fs" by simp
      with Cons.IH es r obtain v' where "validate_field X args f = Inr v'" "(fname f, v') \<in> set m"
        by auto
      with Inr r show ?thesis by simp
    qed
  qed
qed

lemma validated_limit:
  assumes "construct X fs kw = Inr p"
    and "Field ''limit'' TInt (Some (VInt 10)) (Some 1) (Some 100) \<in> set fs"
  shows "\<exists>n. 1 \<le> n \<and> n \<le> 100 \<and> (''limit'', VInt n) \<in> set (model_dump_exclude_none p)"
proof -
  let ?f = "Field ''limit'' TInt (Some (VInt 10)) (Some 1) (Some 100)"
  from assms(1) obtain args where v: "validate X fs args = Inr p"
    by (auto simp: construct_def split: sum.splits)
  then have "fst (validate_fields X args fs) = []" "p = snd (validate_fields X args fs)"
    by (auto simp: validate_def split: prod.splits list.splits)
  with validate_fields_no_errors [of X args fs ?f] assms(2)
  obtain x where x: "validate_field X args ?f = Inr x" "(''limit'', x) \<in> set p"
    by auto
  from x(1) obtain n where "x = VInt n" "1 \<le> n" "n \<le> 100"
    by (auto simp: check_bounds_def split: option.splits if_splits list.splits)
  with x(2) show ?thesis
    by (auto simp: model_dump_exclude_none_def)
qed


lemma fetch_sends:
  "sent (snd (bind (httpx_get X ep ps) (\<lambda>response.
     bind (lift (A response)) (\<lambda>u.
     bind (lift (B response)) (\<lambda>payload. lift (C payload)))) w)) =
   sent w @ [\<lparr>url = ep, query_params = ps\<rparr>]"
  by (simp add: bind_def lift_def httpx_get_def Let_def split: reply.splits sum.splits)

lemma suffix_limit_100: "suffix ''?limit=100'' (pre @ ''?limit=100'')"
  by (rule suffix_appendI) simp

text \<open>
  C10: the fetch functions of station-users, target-actual-compared, station-furniture,
  station-services and station-stores send one request whose URL is a fixed text ending in
  \<^verbatim>\<open>?limit=100\<close>, whatever the parameters are; the query parameters of the same request are
  the non-\<^verbatim>\<open>None\<close> fields of the parameters, so for validated parameters they carry the
  validated \<^verbatim>\<open>limit\<close> (between 1 and 100) as well.
\<close>

theorem limit_100_in_url:
  "(\<exists>req. sent (snd (fetch_usage_data X p w)) = sent w @ [req]
      \<and> url req = BASE_URL @ ''/catalog/datasets/anzahl-sbb-bahnhofbenutzer/records?limit=100''
      \<and> suffix ''?limit=100'' (url req)
      \<and> query_params req = model_dump_exclude_none p
      \<and> (StationUsersParams X kw = Inr p \<longrightarrow>
           (\<exists>n. 1 \<le> n \<and> n \<le> 100 \<and> (''limit'', VInt n) \<in> set (query_params req))))
   \<and> (\<exists>req. sent (snd (fetch_target_actual_compared X p w)) = sent w @ [req]
      \<and> url req = BASE_URL @ ''/catalog/datasets/ist-daten-sbb/records?limit=100''
      \<and> suffix ''?limit=100'' (url req)
      \<and> query_params req = model_dump_exclude_none p
      \<and> (TargetActualComparedParams X kw = Inr p \<longrightarrow>
           (\<exists>n. 1 \<le> n \<and> n \<le> 100 \<and> (''limit'', VInt n) \<in> set (query_params req))))
   \<and> (\<exists>req. sent (snd (fetch_station_furnitures X p w)) = sent w @ [req]
      \<and> url req = BASE_URL @ ''/catalog/datasets/mobiliar-im-bahnhof/records?limit=100''
      \<and> suffix ''?limit=100'' (url req)
      \<and> query_params req = model_dump_exclude_none p
      \<and> (StationFurnitureParams X kw = Inr p \<longrightarrow>
           (\<exists>n. 1 \<le> n \<and> n \<le> 100 \<and> (''limit'', VInt n) \<in> set (query_params req))))
   \<and> (\<exists>req. sent (snd (fetch_station_services X p w)) = sent w @ [req]
      \<and> url req = BASE_URL @ ''/catalog/datasets/haltestelle-offnungszeiten/records?limit=100''
      \<and> suffix ''?limit=100'' (url req)
      \<and> query_params req = model_dump_exclude_none p
      \<and> (StationServiceParams X kw = Inr p \<longrightarrow>
           (\<exists>n. 1 \<le> n \<and> n \<le> 100 \<and> (''limit'', VInt n) \<in> set (query_params req))))
   \<and> (\<exists>req. sent (snd (fetch_stores_data X p w)) = sent w @ [req]
      \<and> url req = BASE_URL @ ''/catalog/datasets/offnungszeiten-shops/records?limit=100''
      \<and> suffix ''?limit=100'' (url req)
      \<and> query_params req = model_dump_exclude_none p
      \<and> (StoresParams X kw = Inr p \<longrightarrow>
           (\<exists>n. 1 \<le> n \<and> n \<le> 100 \<and> (''limit'', VInt n) \<in> set (query_params req))))"
proof -
  have c0: "(\<exists>req. sent (snd (fetch_usage_data X p w)) = sent w @ [req]
      \<and> url req = BASE_URL @ ''/catalog/datasets/anzahl-sbb-bahnhofbenutzer/records?limit=100''
      \<and> suffix ''?limit=100'' (url req)
      \<and> query_params req = model_dump_exclude_none p
      \<and> (StationUsersParams X kw = Inr p \<longrightarrow>
           (\<exists>n. 1 \<le> n \<and> n \<le> 100 \<and> (''limit'', VInt n) \<in> set (query_params req))))"
  proof -
    let ?req = "\<lparr>url = BASE_URL @ ''/catalog/datasets/anzahl-sbb-bahnhofbenutzer/records?limit=100'',
      query_params = model_dump_exclude_none p\<rparr>"
    have s: "sent (snd (fetch_usage_data X p w)) = sent w @ [?req]"
      unfolding fetch_usage_data_def by (rule fetch_sends)
    have e: "suffix ''?limit=100'' (url ?req)"
      using suffix_limit_100 [of "BASE_URL @ ''/catalog/datasets/anzahl-sbb-bahnhofbenutzer/records''"] by simp
    have l: "\<exists>n. 1 \<le> n \<and> n \<le> 100 \<and> (''limit'', VInt n) \<in> set (query_params ?req)"
      if "StationUsersParams X kw = Inr p"
      using validated_limit [of X StationUsersParams_fields kw p] that
      by (simp add: StationUsersParams_def StationUsersParams_fields_def)
    from s e l show ?thesis
      by (intro exI [of _ ?req]) simp
  qed
  have c1: "(\<exists>req. sent (snd (fetch_target_actual_compared X p w)) = sent w @ [req]
      \<and> url req = BASE_URL @ ''/catalog/datasets/ist-daten-sbb/records?limit=100''
      \<and> suffix ''?limit=100'' (url req)
      \<and> query_params req = model_dump_exclude_none p
      \<and> (TargetActualComparedParams X kw = Inr p \<longrightarrow>
           (\<exists>n. 1 \<le> n \<and> n \<le> 100 \<and> (''limit'', VInt n) \<in> set (query_params req))))"
  proof -
    let ?req = "\<lparr>url = BASE_URL @ ''/catalog/datasets/ist-daten-sbb/records?limit=100'',
      query_params = model_dump_exclude_none p\<rparr>"
    have s: "sent (snd (fetch_target_actual_compared X p w)) = sent w @ [?req]"
      unfolding fetch_target_actual_compared_def by (rule fetch_sends)
    have e: "suffix ''?limit=100'' (url ?req)"
      using suffix_limit_100 [of "BASE_URL @ ''/catalog/datasets/ist-daten-sbb/records''"] by simp
    have l: "\<exists>n. 1 \<le> n \<and> n \<le> 100 \<and> (''limit'', VInt n) \<in> set (query_params ?req)"
      if "TargetActualComparedParams X kw = Inr p"
      using validated_limit [of X TargetActualComparedParams_fields kw p] that
      by (simp add: TargetActualComparedParams_def TargetActualComparedParams_fields_def)
    from s e l show ?thesis
      by (intro exI [of _ ?req]) simp
  qed
  have c2: "(\<exists>req. sent (snd (fetch_station_furnitures X p w)) = sent w @ [req]
      \<and> url req = BASE_URL @ ''/catalog/datasets/mobiliar-im-bahnhof/records?limit=100''
      \<and> suffix ''?limit=100'' (url req)
      \<and> query_params req = model_dump_exclude_none p
      \<and> (StationFurnitureParams X kw = Inr p \<longrightarrow>
           (\<exists>n. 1 \<le> n \<and> n \<le> 100 \<and> (''limit'', VInt n) \<in> set (query_params req))))"
  proof -
    let ?req = "\<lparr>url = BASE_URL @ ''/catalog/datasets/mobiliar-im-bahnhof/records?limit=100'',
      query_params = model_dump_exclude_none p\<rparr>"
    have s: "sent (snd (fetch_station_furnitures X p w)) = sent w @ [?req]"
      unfolding fetch_station_furnitures_def by (rule fetch_sends)
    have e: "suffix ''?limit=100'' (url ?req)"
      using suffix_limit_100 [of "BASE_URL @ ''/catalog/datasets/mobiliar-im-bahnhof/records''"] by simp
    have l: "\<exists>n. 1 \<le> n \<and> n \<le> 100 \<and> (''limit'', VInt n) \<in> set (query_params ?req)"
      if "StationFurnitureParams X kw = Inr p"
      using validated_limit [of X StationFurnitureParams_fields kw p] that
      by (simp add: StationFurnitureParams_def StationFurnitureParams_fields_def)
    from s e l show ?thesis
      by (intro exI [of _ ?req]) simp
  qed
  have c3: "(\<exists>req. sent (snd (fetch_station_services X p w)) = sent w @ [req]
      \<and> url req = BASE_URL @ ''/catalog/datasets/haltestelle-offnungszeiten/records?limit=100''
      \<and> suffix ''?limit=100'' (url req)
      \<and> query_params req = model_dump_exclude_none p
      \<and> (StationServiceParams X kw = Inr p \<longrightarrow>
           (\<exists>n. 1 \<le> n \<and> n \<le> 100 \<and> (''limit'', VInt n) \<in> set (query_params req))))"
  proof -
    let ?req = "\<lparr>url = BASE_URL @ ''/catalog/datasets/haltestelle-offnungszeiten/records?limit=100'',
      query_params = model_dump_exclude_none p\<rparr>"
    have s: "sent (snd (fetch_station_services X p w)) = sent w @ [?req]"
      unfolding fetch_station_services_def by (rule fetch_sends)
    have e: "suffix ''?limit=100'' (url ?req)"
      using suffix_limit_100 [of "BASE_URL @ ''/catalog/datasets/haltestelle-offnungszeiten/records''"] by simp
    have l: "\<exists>n. 1 \<le> n \<and> n \<le> 100 \<and> (''limit'', VInt n) \<in> set (query_params ?req)"
      if "StationServiceParams X kw = Inr p"
      using validated_limit [of X StationServiceParams_fields kw p] that
      by (simp add: StationServiceParams_def StationServiceParams_fields_def)
    from s e l show ?thesis
      by (intro exI [of _ ?req]) simp
  qed
  have c4: "(\<exists>req. sent (snd (fetch_stores_data X p w)) = sent w @ [req]
      \<and> url req = BASE_URL @ ''/catalog/datasets/offnungszeiten-shops/records?limit=100''
      \<and> suffix ''?limit=100'' (url req)
      \<and> query_params req = model_dump_exclude_none p
      \<and> (StoresParams X kw = Inr p \<longrightarrow>
           (\<exists>n. 1 \<le> n \<and> n \<le> 100 \<and> (''limit'', VInt n) \<in> set (query_params req))))"
  proof -
    let ?req = "\<lparr>url = BASE_URL @ ''/catalog/datasets/offnungszeiten-shops/records?limit=100'',
      query_params = model_dump_exclude_none p\<rparr>"
    have s: "sent (snd (fetch_stores_data X p w)) = sent w @ [?req]"
      unfolding fetch_stores_data_def by (rule fetch_sends)
    have e: "suffix ''?limit=100'' (url ?req)"
      using suffix_limit_100 [of "BASE_URL @ ''/catalog/datasets/offnungszeiten-shops/records''"] by simp
    have l: "\<exists>n. 1 \<le> n \<and> n \<le> 100 \<and> (''limit'', VInt n) \<in> set (query_params ?req)"
      if "StoresParams X kw = Inr p"
      using validated_limit [of X StoresParams_fields kw p] that
      by (simp add: StoresParams_def StoresParams_fields_def)
    from s e l show ?thesis
      by (intro exI [of _ ?req]) simp
  qed
  from c0 c1 c2 c3 c4 show ?thesis
    by (intro conjI)
qed

text \<open>Station users, called with \<^verbatim>\<open>limit=5\<close>: the URL says 100, the query says 5.\<close>

theorem limit_100_in_url_witness:
  "StationUsersParams offline (Inr [''limit'' \<mapsto> VInt 5]) = Inr
        [(''select'', VNone), (''where'', VNone), (''group_by'', VNone), (''order_by'', VNone),
         (''limit'', VInt 5), (''offset'', VInt 0), (''refine'', VNone), (''exclude'', VNone),
         (''lang'', VNone), (''include_links'', VBool False), (''include_app_metas'', VBool False)]
   \<and> (\<exists>req. sent (snd (fetch_usage_data offline
        [(''select'', VNone), (''where'', VNone), (''group_by'', VNone), (''order_by'', VNone),
         (''limit'', VInt 5), (''offset'', VInt 0), (''refine'', VNone), (''exclude'', VNone),
         (''lang'', VNone), (''include_links'', VBool False), (''include_app_metas'', VBool False)]
        w0)) = [req]
     \<and> url req = ''https://data.sbb.ch/api/explore/v2.1/catalog/datasets/anzahl-sbb-bahnhofbenutzer/records?limit=100''
     \<and> query_params req = [(''limit'', VInt 5), (''offset'', VInt 0),
           (''include_links'', VBool False), (''include_app_metas'', VBool False)]
     \<and> (\<exists>n. 1 \<le> n \<and> n \<le> 100 \<and> (''limit'', VInt n) \<in> set (query_params req)))"
proof -
  let ?p = "[(''select'', VNone), (''where'', VNone), (''group_by'', VNone), (''order_by'', VNone),
         (''limit'', VInt 5), (''offset'', VInt 0), (''refine'', VNone), (''exclude'', VNone),
         (''lang'', VNone), (''include_links'', VBool False), (''include_app_metas'', VBool False)]"
  have v: "StationUsersParams offline (Inr [''limit'' \<mapsto> VInt 5]) = Inr ?p"
    by (simp add: StationUsersParams_def construct_def validate_def StationUsersParams_fields_def
        check_bounds_def offline_def strict_int_def)
  from limit_100_in_url [of offline ?p w0 "Inr [''limit'' \<mapsto> VInt 5]"]
  obtain req where r: "sent (snd (fetch_usage_data offline ?p w0)) = sent w0 @ [req]"
    "url req = BASE_URL @ ''/catalog/datasets/anzahl-sbb-bahnhofbenutzer/records?limit=100''"
    "query_params req = model_dump_exclude_none ?p"
    "StationUsersParams offline (Inr [''limit'' \<mapsto> VInt 5]) = Inr ?p \<longrightarrow>
       (\<exists>n. 1 \<le> n \<and> n \<le> 100 \<and> (''limit'', VInt n) \<in> set (query_params req))"
    by blast
  from r(1) have "sent (snd (fetch_usage_data offline ?p w0)) = [req]"
    by (simp add: w0_def)
  moreover from r(2) have "url req = ''https://data.sbb.ch/api/explore/v2.1/catalog/datasets/anzahl-sbb-bahnhofbenutzer/records?limit=100''"
    by (simp add: BASE_URL_def)
  moreover from r(3) have "query_params req = [(''limit'', VInt 5), (''offset'', VInt 0),
           (''include_links'', VBool False), (''include_app_metas'', VBool False)]"
    by (simp add: model_dump_exclude_none_def)
  moreover from r(4) v have "\<exists>n. 1 \<le> n \<and> n \<le> 100 \<and> (''limit'', VInt n) \<in> set (query_params req)"
    by (rule mp)
  ultimately show ?thesis using v by blast
qed

section \<open>What a handler returns\<close>

lemma handler_returns:
  "(try_log_raise msg (bind (lift P) (\<lambda>params. bind (F params) (\<lambda>r. ret [TextContent (S r)]))) w
      = (Inr blocks, w')) =
   (\<exists>params r. P = Inr params \<and> F params w = (Inr r, w') \<and> blocks = [TextContent (S r)])"
proof (cases P)
  case (Inl e)
  then show ?thesis
    by (simp add: try_log_raise_def bind_def lift_def)
next
  case (Inr params)
  show ?thesis
  proof (cases "F params w")
    case (Pair x w'')
    with Inr show ?thesis
      by (cases x) (auto simp: try_log_raise_def bind_def lift_def ret_def)
  qed
qed

text \<open>
  C3: a handler of either module returns exactly when its arguments validate and its fetch
  function returns a parsed response, and what it returns is then a list of exactly one block,
  a text block whose text is \<^verbatim>\<open>str(response)\<close>; the world is left as the fetch left it.
\<close>

theorem success_is_one_text_block:
  "((handle_rail_traffic_info X arguments w = (Inr blocks, w')) =
      (\<exists>params response. TrafficInfoParams X (expand arguments) = Inr params
         \<and> fetch_rail_traffic_info X params w = (Inr response, w')
         \<and> blocks = [TextContent (model_str X response)]))
   \<and> ((handle_railway_lines X arguments w = (Inr blocks, w')) =
      (\<exists>params response. RailwayLineParams X (expand arguments) = Inr params
         \<and> fetch_railway_lines X params w = (Inr response, w')
         \<and> blocks = [TextContent (model_str X response)]))
   \<and> ((handle_rolling_stock X arguments w = (Inr blocks, w')) =
      (\<exists>params response. RollingStockParams X (expand arguments) = Inr params
         \<and> fetch_rolling_stock X params w = (Inr response, w')
         \<and> blocks = [TextContent (model_str X response)]))
   \<and> ((handle_station_users X arguments w = (Inr blocks, w')) =
      (\<exists>params response. StationUsersParams X (expand (or_empty arguments)) = Inr params
         \<and> fetch_usage_data X params w = (Inr response, w')
         \<and> blocks = [TextContent (model_str X response)]))
   \<and> ((handle_target_actual_compared X arguments w = (Inr blocks, w')) =
      (\<exists>params response. TargetActualComparedParams X (expand (or_empty arguments)) = Inr params
         \<and> fetch_target_actual_compared X params w = (Inr response, w')
         \<and> blocks = [TextContent (model_str X response)]))
   \<and> ((handle_station_furnitures X arguments w = (Inr blocks, w')) =
      (\<exists>params response. StationFurnitureParams X (expand (or_empty arguments)) = Inr params
         \<and> fetch_station_furnitures X params w = (Inr response, w')
         \<and> blocks = [TextContent (model_str X response)]))
   \<and> ((handle_station_services X arguments w = (Inr blocks, w')) =
      (\<exists>params response. StationServiceParams X (expand (or_empty arguments)) = Inr params
         \<and> fetch_station_services X params w = (Inr response, w')
         \<and> blocks = [TextContent (model_str X response)]))
   \<and> ((hande_stores_data X arguments w = (Inr blocks, w')) =
      (\<exists>params response. StoresParams X (expand (or_empty arguments)) = Inr params
         \<and> fetch_stores_data X params w = (Inr response, w')
         \<and> blocks = [TextContent (model_str X response)]))
   \<and> ((handle_screenerdata X arguments w = (Inr blocks, w')) =
      (\<exists>params response. FincanceScreenerParams X (expand (or_empty arguments)) = Inr params
         \<and> fetch_screener_data X params w = (Inr response, w')
         \<and> blocks = [TextContent (model_str X response)]))"
proof -
  have c0: "((handle_rail_traffic_info X arguments w = (Inr blocks, w')) =
      (\<exists>params response. TrafficInfoParams X (expand arguments) = Inr params
         \<and> fetch_rail_traffic_info X params w = (Inr response, w')
         \<and> blocks = [TextContent (model_str X response)]))"
    unfolding handle_rail_traffic_info_def by (rule handler_returns)
  have c1: "((handle_railway_lines X arguments w = (Inr blocks, w')) =
      (\<exists>params response. RailwayLineParams X (expand arguments) = Inr params
         \<and> fetch_railway_lines X params w = (Inr response, w')
         \<and> blocks = [TextContent (model_str X response)]))"
    unfolding handle_railway_lines_def by (rule handler_returns)
  have c2: "((handle_rolling_stock X arguments w = (Inr blocks, w')) =
      (\<exists>params response. RollingStockParams X (expand arguments) = Inr params
         \<and> fetch_rolling_stock X params w = (Inr response, w')
         \<and> blocks = [TextContent (model_str X response)]))"
    unfolding handle_rolling_stock_def by (rule handler_returns)
  have c3: "((handle_station_users X arguments w = (Inr blocks, w')) =
      (\<exists>params response. StationUsersParams X (expand (or_empty arguments)) = Inr params
         \<and> fetch_usage_data X params w = (Inr response, w')
         \<and> blocks = [TextContent (model_str X response)]))"
    unfolding handle_station_users_def by (rule handler_returns)
  have c4: "((handle_target_actual_compared X arguments w = (Inr blocks, w')) =
      (\<exists>params response. TargetActualComparedParams X (expand (or_empty arguments)) = Inr params
         \<and> fetch_target_actual_compared X params w = (Inr response, w')
         \<and> blocks = [TextContent (model_str X response)]))"
    unfolding handle_target_actual_compared_def by (rule handler_returns)
  have c5: "((handle_station_furnitures X arguments w = (Inr blocks, w')) =
      (\<exists>params response. StationFurnitureParams X (expand (or_empty arguments)) = Inr params
         \<and> fetch_station_furnitures X params w = (Inr response, w')
         \<and> blocks = [TextContent (model_str X response)]))"
    unfolding handle_station_furnitures_def by (rule handler_returns)
  have c6: "((handle_station_services X arguments w = (Inr blocks, w')) =
      (\<exists>params response. StationServiceParams X (expand (or_empty arguments)) = Inr params
         \<and> fetch_station_services X params w = (Inr response, w')
         \<and> blocks = [TextContent (model_str X response)]))"
    unfolding handle_station_services_def by (rule handler_returns)
  have c7: "((hande_stores_data X arguments w = (Inr blocks, w')) =
      (\<exists>params response. StoresParams X (expand (or_empty arguments)) = Inr params
         \<and> fetch_stores_data X params w = (Inr response, w')
         \<and> blocks = [TextContent (model_str X response)]))"
    unfolding hande_stores_data_def by (rule handler_returns)
  have c8: "((handle_screenerdata X arguments w = (Inr blocks, w')) =
      (\<exists>params response. FincanceScreenerParams X (expand (or_empty arguments)) = Inr params
         \<and> fetch_screener_data X params w = (Inr response, w')
         \<and> blocks = [TextContent (model_str X response)]))"
    unfolding handle_screenerdata_def by (rule handler_returns)
  from c0 c1 c2 c3 c4 c5 c6 c7 c8 show ?thesis
    by (intro conjI)
qed

text \<open>A rail traffic call with \<^verbatim>\<open>limit=5\<close> against an upstream answering one result.\<close>

theorem success_is_one_text_block_witness:
  "\<exists>w'. handle_rail_traffic_info
      (answering 200 (Json (VDict [(''total_count'', VInt 1), (''results'', VList [VDict []])])))
      (Some [''limit'' \<mapsto> VInt 5]) w0 =
    (Inr [TextContent ''total_count results ''], w')"
proof -
  let ?X = "answering 200 (Json (VDict [(''total_count'', VInt 1), (''results'', VList [VDict []])]))"
  let ?p = "[(''select'', VNone), (''where'', VNone), (''group_by'', VNone), (''order_by'', VNone),
     (''limit'', VInt 5), (''offset'', VInt 0), (''refine'', VNone), (''exclude'', VNone),
     (''lang'', VNone), (''timezone'', VStr ''UTC''), (''include_links'', VBool False),
     (''include_app_metas'', VBool False)]"
  let ?r = "[(''total_count'', VInt 1), (''results'', VList [VDict []])]"
  have v: "TrafficInfoParams ?X (expand (Some [''limit'' \<mapsto> VInt 5])) = Inr ?p"
    by (simp add: TrafficInfoParams_def construct_def validate_def TrafficInfoParams_fields_def
        check_bounds_def answering_def offline_def strict_int_def)
  obtain w' where f: "fetch_rail_traffic_info ?X ?p w0 = (Inr ?r, w')"
    by (simp add: fetch_rail_traffic_info_def bind_def lift_def httpx_get_def Let_def
        raise_for_status_def json_def TrafficInfoResponse_def construct_def validate_def
        TrafficInfoResponse_fields_def check_bounds_def answering_def offline_def
        strict_int_def dict_item_def)
  have s: "model_str ?X ?r = ''total_count results ''"
    by (simp add: answering_def offline_def field_names_def)
  note iff = success_is_one_text_block [of ?X "Some [''limit'' \<mapsto> VInt 5]" w0
        "[TextContent (model_str ?X ?r)]" w', THEN conjunct1]
  from v f have "handle_rail_traffic_info ?X (Some [''limit'' \<mapsto> VInt 5]) w0 =
      (Inr [TextContent (model_str ?X ?r)], w')"
    by (subst iff) (intro exI conjI, assumption, assumption, rule refl)
  with s show ?thesis by (intro exI [of _ w']) (simp only:)
qed

section \<open>What a handler does with a failure\<close>

lemma fetch_keeps_log:
  "logged (snd (bind (httpx_get X ep ps) (\<lambda>response.
     bind (lift (A response)) (\<lambda>u.
     bind (lift (B response)) (\<lambda>payload. lift (C payload)))) w)) = logged w"
  by (simp add: bind_def lift_def httpx_get_def Let_def split: reply.splits sum.splits)

lemma fetch_screener_data_keeps_log:
  "logged (snd (fetch_screener_data X p w)) = logged w"
  by (simp add: fetch_screener_data_def bind_def lift_def set_predefined_body_def
      screener_response_def split: sum.splits list.splits option.splits)

lemma handler_raises:
  assumes keep: "\<And>params. logged (snd (F params w)) = logged w"
    and fails: "try_log_raise msg (bind (lift P) (\<lambda>params. bind (F params) (\<lambda>r. ret (G r)))) w
      = (Inl e, w')"
  shows "logged w' = logged w @ [(msg, e)]"
proof (cases P)
  case (Inl e')
  with fails show ?thesis
    by (auto simp: try_log_raise_def bind_def lift_def)
next
  case (Inr params)
  show ?thesis
  proof (cases "F params w")
    case (Pair x w'')
    with keep [of params] have "logged w'' = logged w" by simp
    with Pair Inr fails show ?thesis
      by (cases x) (auto simp: try_log_raise_def bind_def lift_def ret_def)
  qed
qed

lemma handler_returns_keeps_log:
  assumes keep: "\<And>params. logged (snd (F params w)) = logged w"
    and returns: "try_log_raise msg (bind (lift P) (\<lambda>params. bind (F params) (\<lambda>r. ret (G r)))) w
      = (Inr v, w')"
  shows "logged w' = logged w"
proof (cases P)
  case (Inl e')
  with returns show ?thesis
    by (auto simp: try_log_raise_def bind_def lift_def)
next
  case (Inr params)
  show ?thesis
  proof (cases "F params w")
    case (Pair x w'')
    with keep [of params] have "logged w'' = logged w" by simp
    with Pair Inr returns show ?thesis
      by (cases x) (auto simp: try_log_raise_def bind_def lift_def ret_def)
  qed
qed

lemma handle_rail_traffic_info_log:
  "handle_rail_traffic_info X arguments w = (Inl e, w') \<Longrightarrow>
     \<exists>msg. logged w' = logged w @ [(msg, e)]"
  "handle_rail_traffic_info X arguments w = (Inr v, w') \<Longrightarrow> logged w' = logged w"
proof -
  have keep: "logged (snd (fetch_rail_traffic_info X params w)) = logged w" for params
    unfolding fetch_rail_traffic_info_def by (rule fetch_keeps_log)
  show "handle_rail_traffic_info X arguments w = (Inl e, w') \<Longrightarrow>
      \<exists>msg. logged w' = logged w @ [(msg, e)]"
    unfolding handle_rail_traffic_info_def
    by (rule exI) (erule handler_raises [where F = "fetch_rail_traffic_info X" and w = w, OF keep])
  show "handle_rail_traffic_info X arguments w = (Inr v, w') \<Longrightarrow> logged w' = logged w"
    unfolding handle_rail_traffic_info_def
    by (erule handler_returns_keeps_log [where F = "fetch_rail_traffic_info X" and w = w, OF keep])
qed

lemma handle_railway_lines_log:
  "handle_railway_lines X arguments w = (Inl e, w') \<Longrightarrow>
     \<exists>msg. logged w' = logged w @ [(msg, e)]"
  "handle_railway_lines X arguments w = (Inr v, w') \<Longrightarrow> logged w' = logged w"
proof -
  have keep: "logged (snd (fetch_railway_lines X params w)) = logged w" for params
    unfolding fetch_railway_lines_def by (rule fetch_keeps_log)
  show "handle_railway_lines X arguments w = (Inl e, w') \<Longrightarrow>
      \<exists>msg. logged w' = logged w @ [(msg, e)]"
    unfolding handle_railway_lines_def
    by (rule exI) (erule handler_raises [where F = "fetch_railway_lines X" and w = w, OF keep])
  show "handle_railway_lines X arguments w = (Inr v, w') \<Longrightarrow> logged w' = logged w"
    unfolding handle_railway_lines_def
    by (erule handler_returns_keeps_log [where F = "fetch_railway_lines X" and w = w, OF keep])
qed

lemma handle_rolling_stock_log:
  "handle_rolling_stock X arguments w = (Inl e, w') \<Longrightarrow>
     \<exists>msg. logged w' = logged w @ [(msg, e)]"
  "handle_rolling_stock X arguments w = (Inr v, w') \<Longrightarrow> logged w' = logged w"
proof -
  have keep: "logged (snd (fetch_rolling_stock X params w)) = logged w" for params
    unfolding fetch_rolling_stock_def by (rule fetch_keeps_log)
  show "handle_rolling_stock X arguments w = (Inl e, w') \<Longrightarrow>
      \<exists>msg. logged w' = logged w @ [(msg, e)]"
    unfolding handle_rolling_stock_def
    by (rule exI) (erule handler_raises [where F = "fetch_rolling_stock X" and w = w, OF keep])
  show "handle_rolling_stock X arguments w = (Inr v, w') \<Longrightarrow> logged w' = logged w"
    unfolding handle_rolling_stock_def
    by (erule handler_returns_keeps_log [where F = "fetch_rolling_stock X" and w = w, OF keep])
qed

lemma handle_station_users_log:
  "handle_station_users X arguments w = (Inl e, w') \<Longrightarrow>
     \<exists>msg. logged w' = logged w @ [(msg, e)]"
  "handle_station_users X arguments w = (Inr v, w') \<Longrightarrow> logged w' = logged w"
proof -
  have keep: "logged (snd (fetch_usage_data X params w)) = logged w" for params
    unfolding fetch_usage_data_def by (rule fetch_keeps_log)
  show "handle_station_users X arguments w = (Inl e, w') \<Longrightarrow>
      \<exists>msg. logged w' = logged w @ [(msg, e)]"
    unfolding handle_station_users_def
    by (rule exI) (erule handler_raises [where F = "fetch_usage_data X" and w = w, OF keep])
  show "handle_station_users X arguments w = (Inr v, w') \<Longrightarrow> logged w' = logged w"
    unfolding handle_station_users_def
    by (erule handler_returns_keeps_log [where F = "fetch_usage_data X" and w = w, OF keep])
qed

lemma handle_target_actual_compared_log:
  "handle_target_actual_compared X arguments w = (Inl e, w') \<Longrightarrow>
     \<exists>msg. logged w' = logged w @ [(msg, e)]"
  "handle_target_actual_compared X arguments w = (Inr v, w') \<Longrightarrow> logged w' = logged w"
proof -
  have keep: "logged (snd (fetch_target_actual_compared X params w)) = logged w" for params
    unfolding fetch_target_actual_compared_def by (rule fetch_keeps_log)
  show "handle_target_actual_compared X arguments w = (Inl e, w') \<Longrightarrow>
      \<exists>msg. logged w' = logged w @ [(msg, e)]"
    unfolding handle_target_actual_compared_def
    by (rule exI) (erule handler_raises [where F = "fetch_target_actual_compared X" and w = w, OF keep])
  show "handle_target_actual_compared X arguments w = (Inr v, w') \<Longrightarrow> logged w' = logged w"
    unfolding handle_target_actual_compared_def
    by (erule handler_returns_keeps_log [where F = "fetch_target_actual_compared X" and w = w, OF keep])
qed

lemma handle_station_furnitures_log:
  "handle_station_furnitures X arguments w = (Inl e, w') \<Longrightarrow>
     \<exists>msg. logged w' = logged w @ [(msg, e)]"
  "handle_station_furnitures X arguments w = (Inr v, w') \<Longrightarrow> logged w' = logged w"
proof -
  have keep: "logged (snd (fetch_station_furnitures X params w)) = logged w" for params
    unfolding fetch_station_furnitures_def by (rule fetch_keeps_log)
  show "handle_station_furnitures X arguments w = (Inl e, w') \<Longrightarrow>
      \<exists>msg. logged w' = logged w @ [(msg, e)]"
    unfolding handle_station_furnitures_def
    by (rule exI) (erule handler_raises [where F = "fetch_station_furnitures X" and w = w, OF keep])
  show "handle_station_furnitures X arguments w = (Inr v, w') \<Longrightarrow> logged w' = logged w"
    unfolding handle_station_furnitures_def
    by (erule handler_returns_keeps_log [where F = "fetch_station_furnitures X" and w = w, OF keep])
qed

lemma handle_station_services_log:
  "handle_station_services X arguments w = (Inl e, w') \<Longrightarrow>
     \<exists>msg. logged w' = logged w @ [(msg, e)]"
  "handle_station_services X arguments w = (Inr v, w') \<Longrightarrow> logged w' = logged w"
proof -
  have keep: "logged (snd (fetch_station_services X params w)) = logged w" for params
    unfolding fetch_station_services_def by (rule fetch_keeps_log)
  show "handle_station_services X arguments w = (Inl e, w') \<Longrightarrow>
      \<exists>msg. logged w' = logged w @ [(msg, e)]"
    unfolding handle_station_services_def
    by (rule exI) (erule handler_raises [where F = "fetch_station_services X" and w = w, OF keep])
  show "handle_station_services X arguments w = (Inr v, w') \<Longrightarrow> logged w' = logged w"
    unfolding handle_station_services_def
    by (erule handler_returns_keeps_log [where F = "fetch_station_services X" and w = w, OF keep])
qed

lemma hande_stores_data_log:
  "hande_stores_data X arguments w = (Inl e, w') \<Longrightarrow>
     \<exists>msg. logged w' = logged w @ [(msg, e)]"
  "hande_stores_data X arguments w = (Inr v, w') \<Longrightarrow> logged w' = logged w"
proof -
  have keep: "logged (snd (fetch_stores_data X params w)) = logged w" for params
    unfolding fetch_stores_data_def by (rule fetch_keeps_log)
  show "hande_stores_data X arguments w = (Inl e, w') \<Longrightarrow>
      \<exists>msg. logged w' = logged w @ [(msg, e)]"
    unfolding hande_stores_data_def
    by (rule exI) (erule handler_raises [where F = "fetch_stores_data X" and w = w, OF keep])
  show "hande_stores_data X arguments w = (Inr v, w') \<Longrightarrow> logged w' = logged w"
    unfolding hande_stores_data_def
    by (erule handler_returns_keeps_log [where F = "fetch_stores_data X" and w = w, OF keep])
qed

lemma handle_screenerdata_log:
  "handle_screenerdata X arguments w = (Inl e, w') \<Longrightarrow>
     \<exists>msg. logged w' = logged w @ [(msg, e)]"
  "handle_screenerdata X arguments w = (Inr v, w') \<Longrightarrow> logged w' = logged w"
proof -
  have keep: "logged (snd (fetch_screener_data X params w)) = logged w" for params
    by (rule fetch_screener_data_keeps_log)
  show "handle_screenerdata X arguments w = (Inl e, w') \<Longrightarrow>
      \<exists>msg. logged w' = logged w @ [(msg, e)]"
    unfolding handle_screenerdata_def
    by (rule exI) (erule handler_raises [where F = "fetch_screener_data X" and w = w, OF keep])
  show "handle_screenerdata X arguments w = (Inr v, w') \<Longrightarrow> logged w' = logged w"
    unfolding handle_screenerdata_def
    by (erule handler_returns_keeps_log [where F = "fetch_screener_data X" and w = w, OF keep])
qed

lemma ch_sbb_handlers:
  assumes "TOOLS_HANDLERS ch_sbb tool = Some h"
  shows "h \<in> {handle_rail_traffic_info, handle_railway_lines, handle_rolling_stock,
    handle_station_users, handle_target_actual_compared, handle_station_furnitures,
    handle_station_services, hande_stores_data}"
  using assms
  by (simp add: ch_sbb_def append_tool_def set_handler_def empty_registry_def split: if_splits)

lemma glob_screeners_handlers:
  assumes "TOOLS_HANDLERS glob_screeners tool = Some h"
  shows "h = handle_screenerdata"
  using assms
  by (simp add: glob_screeners_def append_tool_def set_handler_def empty_registry_def split: if_splits)

lemma registered_handlers:
  assumes "TOOLS_HANDLERS ch_sbb tool = Some h \<or> TOOLS_HANDLERS glob_screeners tool = Some h"
  shows "h \<in> {handle_rail_traffic_info, handle_railway_lines, handle_rolling_stock,
    handle_station_users, handle_target_actual_compared, handle_station_furnitures,
    handle_station_services, hande_stores_data, handle_screenerdata}"
  using assms ch_sbb_handlers [of tool h] glob_screeners_handlers [of tool h]
  by blast

lemma handler_fails_iff:
  assumes keep: "\<And>params. logged (snd (F params w)) = logged w"
  shows "(try_log_raise msg (bind (lift P) (\<lambda>params. bind (F params) (\<lambda>r. ret (G r)))) w
      = (Inl e, w')) =
    ((P = Inl e \<and> w' = w\<lparr>logged := logged w @ [(msg, e)]\<rparr>)
     \<or> (\<exists>params w''. P = Inr params \<and> F params w = (Inl e, w'')
          \<and> w' = w''\<lparr>logged := logged w @ [(msg, e)]\<rparr>))"
proof (cases P)
  case (Inl e')
  then show ?thesis
    by (auto simp: try_log_raise_def bind_def lift_def)
next
  case (Inr params)
  show ?thesis
  proof (cases "F params w")
    case (Pair x w2)
    with keep [of params] have k: "logged w2 = logged w" by simp
    show ?thesis
    proof (cases x)
      case (Inl e')
      with Pair Inr k show ?thesis
        by (auto simp: try_log_raise_def bind_def lift_def)
    next
      case r: (Inr r)
      with Pair Inr show ?thesis
        by (auto simp: try_log_raise_def bind_def lift_def ret_def)
    qed
  qed
qed

text \<open>
  C1 as the code has it. Each of the nine registered handlers fails with an exception \<open>e\<close>
  exactly when expanding or validating the arguments raises \<open>e\<close>, or the arguments validate
  and the fetch function raises \<open>e\<close>. The handler then gives \<open>e\<close> to \<^verbatim>\<open>log.error\<close> once, under
  its own message, and raises the same \<open>e\<close> again: the caller has it propagate unchanged, not
  reclassified. Nothing else is logged, and a call that returns logs nothing. No other handler
  is registered.
\<close>

theorem handler_failure_logged_and_reraised:
  "(TOOLS_HANDLERS ch_sbb ''rail-traffic-info'' = Some handle_rail_traffic_info
      \<and> ((handle_rail_traffic_info X arguments w = (Inl e, w')) =
           ((TrafficInfoParams X (expand arguments) = Inl e
               \<and> w' = w\<lparr>logged := logged w @ [(''Error fetching rail traffic info: '', e)]\<rparr>)
            \<or> (\<exists>params w''. TrafficInfoParams X (expand arguments) = Inr params
               \<and> fetch_rail_traffic_info X params w = (Inl e, w'')
               \<and> w' = w''\<lparr>logged := logged w @ [(''Error fetching rail traffic info: '', e)]\<rparr>)))
      \<and> (\<forall>v. handle_rail_traffic_info X arguments w = (Inr v, w') \<longrightarrow> logged w' = logged w))
   \<and> (TOOLS_HANDLERS ch_sbb ''railway-lines'' = Some handle_railway_lines
      \<and> ((handle_railway_lines X arguments w = (Inl e, w')) =
           ((RailwayLineParams X (expand arguments) = Inl e
               \<and> w' = w\<lparr>logged := logged w @ [(''Error fetching railway lines: '', e)]\<rparr>)
            \<or> (\<exists>params w''. RailwayLineParams X (expand arguments) = Inr params
               \<and> fetch_railway_lines X params w = (Inl e, w'')
               \<and> w' = w''\<lparr>logged := logged w @ [(''Error fetching railway lines: '', e)]\<rparr>)))
      \<and> (\<forall>v. handle_railway_lines X arguments w = (Inr v, w') \<longrightarrow> logged w' = logged w))
   \<and> (TOOLS_HANDLERS ch_sbb ''rolling-stock'' = Some handle_rolling_stock
      \<and> ((handle_rolling_stock X arguments w = (Inl e, w')) =
           ((RollingStockParams X (expand arguments) = Inl e
               \<and> w' = w\<lparr>logged := logged w @ [(''Error fetching rolling stock info: '', e)]\<rparr>)
            \<or> (\<exists>params w''. RollingStockParams X (expand arguments) = Inr params
               \<and> fetch_rolling_stock X params w = (Inl e, w'')
               \<and> w' = w''\<lparr>logged := logged w @ [(''Error fetching rolling stock info: '', e)]\<rparr>)))
      \<and> (\<forall>v. handle_rolling_stock X arguments w = (Inr v, w') \<longrightarrow> logged w' = logged w))
   \<and> (TOOLS_HANDLERS ch_sbb ''station-users'' = Some handle_station_users
      \<and> ((handle_station_users X arguments w = (Inl e, w')) =
           ((StationUsersParams X (expand (or_empty arguments)) = Inl e
               \<and> w' = w\<lparr>logged := logged w @ [(''Error handling endpoint: '', e)]\<rparr>)
            \<or> (\<exists>params w''. StationUsersParams X (expand (or_empty arguments)) = Inr params
               \<and> fetch_usage_data X params w = (Inl e, w'')
               \<and> w' = w''\<lparr>logged := logged w @ [(''Error handling endpoint: '', e)]\<rparr>)))
      \<and> (\<forall>v. handle_station_users X arguments w = (Inr v, w') \<longrightarrow> logged w' = logged w))
   \<and> (TOOLS_HANDLERS ch_sbb ''target-actual-compared'' = Some handle_target_actual_compared
      \<and> ((handle_target_actual_compared X arguments w = (Inl e, w')) =
           ((TargetActualComparedParams X (expand (or_empty arguments)) = Inl e
               \<and> w' = w\<lparr>logged := logged w @ [(''Error handling endpoint: '', e)]\<rparr>)
            \<or> (\<exists>params w''. TargetActualComparedParams X (expand (or_empty arguments)) = Inr params
               \<and> fetch_target_actual_compared X params w = (Inl e, w'')
               \<and> w' = w''\<lparr>logged := logged w @ [(''Error handling endpoint: '', e)]\<rparr>)))
      \<and> (\<forall>v. handle_target_actual_compared X arguments w = (Inr v, w') \<longrightarrow> logged w' = logged w))
   \<and> (TOOLS_HANDLERS ch_sbb ''station-furniture'' = Some handle_station_furnitures
      \<and> ((handle_station_furnitures X arguments w = (Inl e, w')) =
           ((StationFurnitureParams X (expand (or_empty arguments)) = Inl e
               \<and> w' = w\<lparr>logged := logged w @ [(''Error handling endpoint: '', e)]\<rparr>)
            \<or> (\<exists>params w''. StationFurnitureParams X (expand (or_empty arguments)) = Inr params
               \<and> fetch_station_furnitures X params w = (Inl e, w'')
               \<and> w' = w''\<lparr>logged := logged w @ [(''Error handling endpoint: '', e)]\<rparr>)))
      \<and> (\<forall>v. handle_station_furnitures X arguments w = (Inr v, w') \<longrightarrow> logged w' = logged w))
   \<and> (TOOLS_HANDLERS ch_sbb ''station-services'' = Some handle_station_services
      \<and> ((handle_station_services X arguments w = (Inl e, w')) =
           ((StationServiceParams X (expand (or_empty arguments)) = Inl e
               \<and> w' = w\<lparr>logged := logged w @ [(''Error handling endpoint: '', e)]\<rparr>)
            \<or> (\<exists>params w''. StationServiceParams X (expand (or_empty arguments)) = Inr params
               \<and> fetch_station_services X params w = (Inl e, w'')
               \<and> w' = w''\<lparr>logged := logged w @ [(''Error handling endpoint: '', e)]\<rparr>)))
      \<and> (\<forall>v. handle_station_services X arguments w = (Inr v, w') \<longrightarrow> logged w' = logged w))
   \<and> (TOOLS_HANDLERS ch_sbb ''station-stores'' = Some hande_stores_data
      \<and> ((hande_stores_data X arguments w = (Inl e, w')) =
           ((StoresParams X (expand (or_empty arguments)) = Inl e
               \<and> w' = w\<lparr>logged := logged w @ [(''Error handling endpoint: '', e)]\<rparr>)
            \<or> (\<exists>params w''. StoresParams X (expand (or_empty arguments)) = Inr params
               \<and> fetch_stores_data X params w = (Inl e, w'')
               \<and> w' = w''\<lparr>logged := logged w @ [(''Error handling endpoint: '', e)]\<rparr>)))
      \<and> (\<forall>v. hande_stores_data X arguments w = (Inr v, w') \<longrightarrow> logged w' = logged w))
   \<and> (TOOLS_HANDLERS glob_screeners ''stock-screendata'' = Some handle_screenerdata
      \<and> ((handle_screenerdata X arguments w = (Inl e, w')) =
           ((FincanceScreenerParams X (expand (or_empty arguments)) = Inl e
               \<and> w' = w\<lparr>logged := logged w @ [(''Error handling endpoint: '', e)]\<rparr>)
            \<or> (\<exists>params w''. FincanceScreenerParams X (expand (or_empty arguments)) = Inr params
               \<and> fetch_screener_data X params w = (Inl e, w'')
               \<and> w' = w''\<lparr>logged := logged w @ [(''Error handling endpoint: '', e)]\<rparr>)))
      \<and> (\<forall>v. handle_screenerdata X arguments w = (Inr v, w') \<longrightarrow> logged w' = logged w))
   \<and> (\<forall>tool h. TOOLS_HANDLERS ch_sbb tool = Some h \<or> TOOLS_HANDLERS glob_screeners tool = Some h
         \<longrightarrow> h \<in> {handle_rail_traffic_info, handle_railway_lines, handle_rolling_stock,
               handle_station_users, handle_target_actual_compared, handle_station_furnitures,
               handle_station_services, hande_stores_data, handle_screenerdata})"
proof -
  have c0: "(TOOLS_HANDLERS ch_sbb ''rail-traffic-info'' = Some handle_rail_traffic_info
      \<and> ((handle_rail_traffic_info X arguments w = (Inl e, w')) =
           ((TrafficInfoParams X (expand arguments) = Inl e
               \<and> w' = w\<lparr>logged := logged w @ [(''Error fetching rail traffic info: '', e)]\<rparr>)
            \<or> (\<exists>params w''. TrafficInfoParams X (expand arguments) = Inr params
               \<and> fetch_rail_traffic_info X params w = (Inl e, w'')
               \<and> w' = w''\<lparr>logged := logged w @ [(''Error fetching rail traffic info: '', e)]\<rparr>)))
      \<and> (\<forall>v. handle_rail_traffic_info X arguments w = (Inr v, w') \<longrightarrow> logged w' = logged w))"
  proof -
    have keep: "logged (snd (fetch_rail_traffic_info X params w)) = logged w" for params
      unfolding fetch_rail_traffic_info_def by (rule fetch_keeps_log)
    have r: "TOOLS_HANDLERS ch_sbb ''rail-traffic-info'' = Some handle_rail_traffic_info"
      by (simp add: ch_sbb_def append_tool_def set_handler_def empty_registry_def)
    have f: "(handle_rail_traffic_info X arguments w = (Inl e, w')) =
           ((TrafficInfoParams X (expand arguments) = Inl e
               \<and> w' = w\<lparr>logged := logged w @ [(''Error fetching rail traffic info: '', e)]\<rparr>)
            \<or> (\<exists>params w''. TrafficInfoParams X (expand arguments) = Inr params
               \<and> fetch_rail_traffic_info X params w = (Inl e, w'')
               \<and> w' = w''\<lparr>logged := logged w @ [(''Error fetching rail traffic info: '', e)]\<rparr>))"
      unfolding handle_rail_traffic_info_def
      by (rule handler_fails_iff [where F = "fetch_rail_traffic_info X" and w = w, OF keep])
    have s: "\<forall>v. handle_rail_traffic_info X arguments w = (Inr v, w') \<longrightarrow> logged w' = logged w"
      using handle_rail_traffic_info_log(2) [of X arguments w _ w'] by blast
    from r f s show ?thesis
      by (intro conjI)
  qed
  have c1: "(TOOLS_HANDLERS ch_sbb ''railway-lines'' = Some handle_railway_lines
      \<and> ((handle_railway_lines X arguments w = (Inl e, w')) =
           ((RailwayLineParams X (expand arguments) = Inl e
               \<and> w' = w\<lparr>logged := logged w @ [(''Error fetching railway lines: '', e)]\<rparr>)
            \<or> (\<exists>params w''. RailwayLineParams X (expand arguments) = Inr params
               \<and> fetch_railway_lines X params w = (Inl e, w'')
               \<and> w' = w''\<lparr>logged := logged w @ [(''Error fetching railway lines: '', e)]\<rparr>)))
      \<and> (\<forall>v. handle_railway_lines X arguments w = (Inr v, w') \<longrightarrow> logged w' = logged w))"
  proof -
    have keep: "logged (snd (fetch_railway_lines X params w)) = logged w" for params
      unfolding fetch_railway_lines_def by (rule fetch_keeps_log)
    have r: "TOOLS_HANDLERS ch_sbb ''railway-lines'' = Some handle_railway_lines"
      by (simp add: ch_sbb_def append_tool_def set_handler_def empty_registry_def)
    have f: "(handle_railway_lines X arguments w = (Inl e, w')) =
           ((RailwayLineParams X (expand arguments) = Inl e
               \<and> w' = w\<lparr>logged := logged w @ [(''Error fetching railway lines: '', e)]\<rparr>)
            \<or> (\<exists>params w''. RailwayLineParams X (expand arguments) = Inr params
               \<and> fetch_railway_lines X params w = (Inl e, w'')
               \<and> w' = w''\<lparr>logged := logged w @ [(''Error fetching railway lines: '', e)]\<rparr>))"
      unfolding handle_railway_lines_def
      by (rule handler_fails_iff [where F = "fetch_railway_lines X" and w = w, OF keep])
    have s: "\<forall>v. handle_railway_lines X arguments w = (Inr v, w') \<longrightarrow> logged w' = logged w"
      using handle_railway_lines_log(2) [of X arguments w _ w'] by blast
    from r f s show ?thesis
      by (intro conjI)
  qed
  have c2: "(TOOLS_HANDLERS ch_sbb ''rolling-stock'' = Some handle_rolling_stock
      \<and> ((handle_rolling_stock X arguments w = (Inl e, w')) =
           ((RollingStockParams X (expand arguments) = Inl e
               \<and> w' = w\<lparr>logged := logged w @ [(''Error fetching rolling stock info: '', e)]\<rparr>)
            \<or> (\<exists>params w''. RollingStockParams X (expand arguments) = Inr params
               \<and> fetch_rolling_stock X params w = (Inl e, w'')
               \<and> w' = w''\<lparr>logged := logged w @ [(''Error fetching rolling stock info: '', e)]\<rparr>)))
      \<and> (\<forall>v. handle_rolling_stock X arguments w = (Inr v, w') \<longrightarrow> logged w' = logged w))"
  proof -
    have keep: "logged (snd (fetch_rolling_stock X params w)) = logged w" for params
      unfolding fetch_rolling_stock_def by (rule fetch_keeps_log)
    have r: "TOOLS_HANDLERS ch_sbb ''rolling-stock'' = Some handle_rolling_stock"
      by (simp add: ch_sbb_def append_tool_def set_handler_def empty_registry_def)
    have f: "(handle_rolling_stock X arguments w = (Inl e, w')) =
           ((RollingStockParams X (expand arguments) = Inl e
               \<and> w' = w\<lparr>logged := logged w @ [(''Error fetching rolling stock info: '', e)]\<rparr>)
            \<or> (\<exists>params w''. RollingStockParams X (expand arguments) = Inr params
               \<and> fetch_rolling_stock X params w = (Inl e, w'')
               \<and> w' = w''\<lparr>logged := logged w @ [(''Error fetching rolling stock info: '', e)]\<rparr>))"
      unfolding handle_rolling_stock_def
      by (rule handler_fails_iff [where F = "fetch_rolling_stock X" and w = w, OF keep])
    have s: "\<forall>v. handle_rolling_stock X arguments w = (Inr v, w') \<longrightarrow> logged w' = logged w"
      using handle_rolling_stock_log(2) [of X arguments w _ w'] by blast
    from r f s show ?thesis
      by (intro conjI)
  qed
  have c3: "(TOOLS_HANDLERS ch_sbb ''station-users'' = Some handle_station_users
      \<and> ((handle_station_users X arguments w = (Inl e, w')) =
           ((StationUsersParams X (expand (or_empty arguments)) = Inl e
               \<and> w' = w\<lparr>logged := logged w @ [(''Error handling endpoint: '', e)]\<rparr>)
            \<or> (\<exists>params w''. StationUsersParams X (expand (or_empty arguments)) = Inr params
               \<and> fetch_usage_data X params w = (Inl e, w'')
               \<and> w' = w''\<lparr>logged := logged w @ [(''Error handling endpoint: '', e)]\<rparr>)))
      \<and> (\<forall>v. handle_station_users X arguments w = (Inr v, w') \<longrightarrow> logged w' = logged w))"
  proof -
    have keep: "logged (snd (fetch_usage_data X params w)) = logged w" for params
      unfolding fetch_usage_data_def by (rule fetch_keeps_log)
    have r: "TOOLS_HANDLERS ch_sbb ''station-users'' = Some handle_station_users"
      by (simp add: ch_sbb_def append_tool_def set_handler_def empty_registry_def)
    have f: "(handle_station_users X arguments w = (Inl e, w')) =
           ((StationUsersParams X (expand (or_empty arguments)) = Inl e
               \<and> w' = w\<lparr>logged := logged w @ [(''Error handling endpoint: '', e)]\<rparr>)
            \<or> (\<exists>params w''. StationUsersParams X (expand (or_empty arguments)) = Inr params
               \<and> fetch_usage_data X params w = (Inl e, w'')
               \<and> w' = w''\<lparr>logged := logged w @ [(''Error handling endpoint: '', e)]\<rparr>))"
      unfolding handle_station_users_def
      by (rule handler_fails_iff [where F = "fetch_usage_data X" and w = w, OF keep])
    have s: "\<forall>v. handle_station_users X arguments w = (Inr v, w') \<longrightarrow> logged w' = logged w"
      using handle_station_users_log(2) [of X arguments w _ w'] by blast
    from r f s show ?thesis
      by (intro conjI)
  qed
  have c4: "(TOOLS_HANDLERS ch_sbb ''target-actual-compared'' = Some handle_target_actual_compared
      \<and> ((handle_target_actual_compared X arguments w = (Inl e, w')) =
           ((TargetActualComparedParams X (expand (or_empty arguments)) = Inl e
               \<and> w' = w\<lparr>logged := logged w @ [(''Error handling endpoint: '', e)]\<rparr>)
            \<or> (\<exists>params w''. TargetActualComparedParams X (expand (or_empty arguments)) = Inr params
               \<and> fetch_target_actual_compared X params w = (Inl e, w'')
               \<and> w' = w''\<lparr>logged := logged w @ [(''Error handling endpoint: '', e)]\<rparr>)))
      \<and> (\<forall>v. handle_target_actual_compared X arguments w = (Inr v, w') \<longrightarrow> logged w' = logged w))"
  proof -
    have keep: "logged (snd (fetch_target_actual_compared X params w)) = logged w" for params
      unfolding fetch_target_actual_compared_def by (rule fetch_keeps_log)
    have r: "TOOLS_HANDLERS ch_sbb ''target-actual-compared'' = Some handle_target_actual_compared"
      by (simp add: ch_sbb_def append_tool_def set_handler_def empty_registry_def)
    have f: "(handle_target_actual_compared X arguments w = (Inl e, w')) =
           ((TargetActualComparedParams X (expand (or_empty arguments)) = Inl e
               \<and> w' = w\<lparr>logged := logged w @ [(''Error handling endpoint: '', e)]\<rparr>)
            \<or> (\<exists>params w''. TargetActualComparedParams X (expand (or_empty arguments)) = Inr params
               \<and> fetch_target_actual_compared X params w = (Inl e, w'')
               \<and> w' = w''\<lparr>logged := logged w @ [(''Error handling endpoint: '', e)]\<rparr>))"
      unfolding handle_target_actual_compared_def
      by (rule handler_fails_iff [where F = "fetch_target_actual_compared X" and w = w, OF keep])
    have s: "\<forall>v. handle_target_actual_compared X arguments w = (Inr v, w') \<longrightarrow> logged w' = logged w"
      using handle_target_actual_compared_log(2) [of X arguments w _ w'] by blast
    from r f s show ?thesis
      by (intro conjI)
  qed
  have c5: "(TOOLS_HANDLERS ch_sbb ''station-furniture'' = Some handle_station_furnitures
      \<and> ((handle_station_furnitures X arguments w = (Inl e, w')) =
           ((StationFurnitureParams X (expand (or_empty arguments)) = Inl e
               \<and> w' = w\<lparr>logged := logged w @ [(''Error handling endpoint: '', e)]\<rparr>)
            \<or> (\<exists>params w''. StationFurnitureParams X (expand (or_empty arguments)) = Inr params
               \<and> fetch_station_furnitures X params w = (Inl e, w'')
               \<and> w' = w''\<lparr>logged := logged w @ [(''Error handling endpoint: '', e)]\<rparr>)))
      \<and> (\<forall>v. handle_station_furnitures X arguments w = (Inr v, w') \<longrightarrow> logged w' = logged w))"
  proof -
    have keep: "logged (snd (fetch_station_furnitures X params w)) = logged w" for params
      unfolding fetch_station_furnitures_def by (rule fetch_keeps_log)
    have r: "TOOLS_HANDLERS ch_sbb ''station-furniture'' = Some handle_station_furnitures"
      by (simp add: ch_sbb_def append_tool_def set_handler_def empty_registry_def)
    have f: "(handle_station_furnitures X arguments w = (Inl e, w')) =
           ((StationFurnitureParams X (expand (or_empty arguments)) = Inl e
               \<and> w' = w\<lparr>logged := logged w @ [(''Error handling endpoint: '', e)]\<rparr>)
            \<or> (\<exists>params w''. StationFurnitureParams X (expand (or_empty arguments)) = Inr params
               \<and> fetch_station_furnitures X params w = (Inl e, w'')
               \<and> w' = w''\<lparr>logged := logged w @ [(''Error handling endpoint: '', e)]\<rparr>))"
      unfolding handle_station_furnitures_def
      by (rule handler_fails_iff [where F = "fetch_station_furnitures X" and w = w, OF keep])
    have s: "\<forall>v. handle_station_furnitures X arguments w = (Inr v, w') \<longrightarrow> logged w' = logged w"
      using handle_station_furnitures_log(2) [of X arguments w _ w'] by blast
    from r f s show ?thesis
      by (intro conjI)
  qed
  have c6: "(TOOLS_HANDLERS ch_sbb ''station-services'' = Some handle_station_services
      \<and> ((handle_station_services X arguments w = (Inl e, w')) =
           ((StationServiceParams X (expand (or_empty arguments)) = Inl e
               \<and> w' = w\<lparr>logged := logged w @ [(''Error handling endpoint: '', e)]\<rparr>)
            \<or> (\<exists>params w''. StationServiceParams X (expand (or_empty arguments)) = Inr params
               \<and> fetch_station_services X params w = (Inl e, w'')
               \<and> w' = w''\<lparr>logged := logged w @ [(''Error handling endpoint: '', e)]\<rparr>)))
      \<and> (\<forall>v. handle_station_services X arguments w = (Inr v, w') \<longrightarrow> logged w' = logged w))"
  proof -
    have keep: "logged (snd (fetch_station_services X params w)) = logged w" for params
      unfolding fetch_station_services_def by (rule fetch_keeps_log)
    have r: "TOOLS_HANDLERS ch_sbb ''station-services'' = Some handle_station_services"
      by (simp add: ch_sbb_def append_tool_def set_handler_def empty_registry_def)
    have f: "(handle_station_services X arguments w = (Inl e, w')) =
           ((StationServiceParams X (expand (or_empty arguments)) = Inl e
               \<and> w' = w\<lparr>logged := logged w @ [(''Error handling endpoint: '', e)]\<rparr>)
            \<or> (\<exists>params w''. StationServiceParams X (expand (or_empty arguments)) = Inr params
               \<and> fetch_station_services X params w = (Inl e, w'')
               \<and> w' = w''\<lparr>logged := logged w @ [(''Error handling endpoint: '', e)]\<rparr>))"
      unfolding handle_station_services_def
      by (rule handler_fails_iff [where F = "fetch_station_services X" and w = w, OF keep])
    have s: "\<forall>v. handle_station_services X arguments w = (Inr v, w') \<longrightarrow> logged w' = logged w"
      using handle_station_services_log(2) [of X arguments w _ w'] by blast
    from r f s show ?thesis
      by (intro conjI)
  qed
  have c7: "(TOOLS_HANDLERS ch_sbb ''station-stores'' = Some hande_stores_data
      \<and> ((hande_stores_data X arguments w = (Inl e, w')) =
           ((StoresParams X (expand (or_empty arguments)) = Inl e
               \<and> w' = w\<lparr>logged := logged w @ [(''Error handling endpoint: '', e)]\<rparr>)
            \<or> (\<exists>params w''. StoresParams X (expand (or_empty arguments)) = Inr params
               \<and> fetch_stores_data X params w = (Inl e, w'')
               \<and> w' = w''\<lparr>logged := logged w @ [(''Error handling endpoint: '', e)]\<rparr>)))
      \<and> (\<forall>v. hande_stores_data X arguments w = (Inr v, w') \<longrightarrow> logged w' = logged w))"
  proof -
    have keep: "logged (snd (fetch_stores_data X params w)) = logged w" for params
      unfolding fetch_stores_data_def by (rule fetch_keeps_log)
    have r: "TOOLS_HANDLERS ch_sbb ''station-stores'' = Some hande_stores_data"
      by (simp add: ch_sbb_def append_tool_def set_handler_def empty_registry_def)
    have f: "(hande_stores_data X arguments w = (Inl e, w')) =
           ((StoresParams X (expand (or_empty arguments)) = Inl e
               \<and> w' = w\<lparr>logged := logged w @ [(''Error handling endpoint: '', e)]\<rparr>)
            \<or> (\<exists>params w''. StoresParams X (expand (or_empty arguments)) = Inr params
               \<and> fetch_stores_data X params w = (Inl e, w'')
               \<and> w' = w''\<lparr>logged := logged w @ [(''Error handling endpoint: '', e)]\<rparr>))"
      unfolding hande_stores_data_def
      by (rule handler_fails_iff [where F = "fetch_stores_data X" and w = w, OF keep])
    have s: "\<forall>v. hande_stores_data X arguments w = (Inr v, w') \<longrightarrow> logged w' = logged w"
      using hande_stores_data_log(2) [of X arguments w _ w'] by blast
    from r f s show ?thesis
      by (intro conjI)
  qed
  have c8: "(TOOLS_HANDLERS glob_screeners ''stock-screendata'' = Some handle_screenerdata
      \<and> ((handle_screenerdata X arguments w = (Inl e, w')) =
           ((FincanceScreenerParams X (expand (or_empty arguments)) = Inl e
               \<and> w' = w\<lparr>logged := logged w @ [(''Error handling endpoint: '', e)]\<rparr>)
            \<or> (\<exists>params w''. FincanceScreenerParams X (expand (or_empty arguments)) = Inr params
               \<and> fetch_screener_data X params w = (Inl e, w'')
               \<and> w' = w''\<lparr>logged := logged w @ [(''Error handling endpoint: '', e)]\<rparr>)))
      \<and> (\<forall>v. handle_screenerdata X arguments w = (Inr v, w') \<longrightarrow> logged w' = logged w))"
  proof -
    have keep: "logged (snd (fetch_screener_data X params w)) = logged w" for params
      by (rule fetch_screener_data_keeps_log)
    have r: "TOOLS_HANDLERS glob_screeners ''stock-screendata'' = Some handle_screenerdata"
      by (simp add: glob_screeners_def append_tool_def set_handler_def empty_registry_def)
    have f: "(handle_screenerdata X arguments w = (Inl e, w')) =
           ((FincanceScreenerParams X (expand (or_empty arguments)) = Inl e
               \<and> w' = w\<lparr>logged := logged w @ [(''Error handling endpoint: '', e)]\<rparr>)
            \<or> (\<exists>params w''. FincanceScreenerParams X (expand (or_empty arguments)) = Inr params
               \<and> fetch_screener_data X params w = (Inl e, w'')
               \<and> w' = w''\<lparr>logged := logged w @ [(''Error handling endpoint: '', e)]\<rparr>))"
      unfolding handle_screenerdata_def
      by (rule handler_fails_iff [where F = "fetch_screener_data X" and w = w, OF keep])
    have s: "\<forall>v. handle_screenerdata X arguments w = (Inr v, w') \<longrightarrow> logged w' = logged w"
      using handle_screenerdata_log(2) [of X arguments w _ w'] by blast
    from r f s show ?thesis
      by (intro conjI)
  qed
  have all: "\<forall>tool h. TOOLS_HANDLERS ch_sbb tool = Some h \<or> TOOLS_HANDLERS glob_screeners tool = Some h
         \<longrightarrow> h \<in> {handle_rail_traffic_info, handle_railway_lines, handle_rolling_stock,
               handle_station_users, handle_target_actual_compared, handle_station_furnitures,
               handle_station_services, hande_stores_data, handle_screenerdata}"
    using registered_handlers by blast
  show ?thesis
    by (rule conjI [OF c0 conjI [OF c1 conjI [OF c2 conjI [OF c3 conjI [OF c4 conjI [OF c5 conjI [OF c6 conjI [OF c7 conjI [OF c8 all]]]]]]]]])
qed

text \<open>The rail traffic handler, called with \<^verbatim>\<open>{}\<close> against an upstream answering 503: the
  request goes out with the defaults, and the \<^verbatim>\<open>HTTPStatusError\<close> of the fetch is what is logged
  and what is raised.\<close>

theorem handler_failure_logged_and_reraised_witness:
  "handle_rail_traffic_info (answering 503 NotJson) (Some Map.empty) w0 =
     (Inl (HTTPStatusError 503),
      \<lparr>sent = [\<lparr>url = ''https://data.sbb.ch/api/explore/v2.1/catalog/datasets/rail-traffic-information/records'',
                query_params = [(''limit'', VInt 10), (''offset'', VInt 0),
                  (''timezone'', VStr ''UTC''), (''include_links'', VBool False),
                  (''include_app_metas'', VBool False)]\<rparr>],
       predefined = [],
       logged = [(''Error fetching rail traffic info: '', HTTPStatusError 503)]\<rparr>)"
proof -
  let ?X = "answering 503 NotJson"
  let ?D = "[(''select'', VNone), (''where'', VNone), (''group_by'', VNone), (''order_by'', VNone),
     (''limit'', VInt 10), (''offset'', VInt 0), (''refine'', VNone), (''exclude'', VNone),
     (''lang'', VNone), (''timezone'', VStr ''UTC''), (''include_links'', VBool False),
     (''include_app_metas'', VBool False)]"
  let ?req = "\<lparr>url = ''https://data.sbb.ch/api/explore/v2.1/catalog/datasets/rail-traffic-information/records'',
                query_params = [(''limit'', VInt 10), (''offset'', VInt 0),
                  (''timezone'', VStr ''UTC''), (''include_links'', VBool False),
                  (''include_app_metas'', VBool False)]\<rparr>"
  let ?w2 = "\<lparr>sent = [?req], predefined = [], logged = []\<rparr>"
  let ?w3 = "\<lparr>sent = [?req], predefined = [],
       logged = [(''Error fetching rail traffic info: '', HTTPStatusError 503)]\<rparr>"
  have v: "TrafficInfoParams ?X (expand (Some Map.empty)) = Inr ?D"
    by (simp add: TrafficInfoParams_def construct_def validate_def TrafficInfoParams_fields_def)
  have f: "fetch_rail_traffic_info ?X ?D w0 = (Inl (HTTPStatusError 503), ?w2)"
    by (simp add: fetch_rail_traffic_info_def bind_def lift_def httpx_get_def Let_def
        raise_for_status_def answering_def offline_def w0_def BASE_URL_def
        model_dump_exclude_none_def)
  have u: "?w3 = ?w2\<lparr>logged := logged w0 @ [(''Error fetching rail traffic info: '', HTTPStatusError 503)]\<rparr>"
    by (simp add: w0_def)
  note iff = handler_failure_logged_and_reraised [where X = ?X and arguments = "Some Map.empty"
      and w = w0 and e = "HTTPStatusError 503" and w' = ?w3,
      THEN conjunct1, THEN conjunct2, THEN conjunct1]
  from v f u have "\<exists>params w''. TrafficInfoParams ?X (expand (Some Map.empty)) = Inr params
      \<and> fetch_rail_traffic_info ?X params w0 = (Inl (HTTPStatusError 503), w'')
      \<and> ?w3 = w''\<lparr>logged := logged w0 @ [(''Error fetching rail traffic info: '', HTTPStatusError 503)]\<rparr>"
    by blast
  then show ?thesis
    unfolding iff by (rule disjI2)
qed

text \<open>The claim as stated fails there: what the caller gets is the raw \<^verbatim>\<open>HTTPStatusError\<close>, none
  of the three classified kinds.\<close>

theorem handler_failure_classified_counterexample:
  "TOOLS_HANDLERS ch_sbb ''rail-traffic-info'' = Some handle_rail_traffic_info
   \<and> caller_sees (fst (handle_rail_traffic_info (answering 503 NotJson) (Some Map.empty) w0))
        = Propagated (HTTPStatusError 503)
   \<and> caller_sees (fst (handle_rail_traffic_info (answering 503 NotJson) (Some Map.empty) w0))
        \<notin> {Classified UpstreamUnavailable, Classified UpstreamMalformedResponse,
            Classified InternalFault}"
proof -
  have r: "TOOLS_HANDLERS ch_sbb ''rail-traffic-info'' = Some handle_rail_traffic_info"
    by (simp add: ch_sbb_def append_tool_def set_handler_def empty_registry_def)
  have f: "fst (handle_rail_traffic_info (answering 503 NotJson) (Some Map.empty) w0)
      = Inl (HTTPStatusError 503)"
    by (simp add: handle_rail_traffic_info_def try_log_raise_def bind_def lift_def
        TrafficInfoParams_def construct_def validate_def TrafficInfoParams_fields_def
        fetch_rail_traffic_info_def httpx_get_def Let_def raise_for_status_def
        answering_def offline_def)
  show ?thesis
    unfolding f using r by simp
qed

section \<open>A payload that does not fit\<close>

lemma fetch_rail_traffic_info_success_status:
  assumes "http_get X \<lparr>url = BASE_URL @ ''/catalog/datasets/rail-traffic-information/records'',
      query_params = model_dump_exclude_none params\<rparr> = Reply code (Json payload)"
    and "200 \<le> code" and "code \<le> 299"
  shows "fetch_rail_traffic_info X params w =
    (TrafficInfoResponse X (expand_json payload),
     w\<lparr>sent := sent w @ [\<lparr>url = BASE_URL @ ''/catalog/datasets/rail-traffic-information/records'',
       query_params = model_dump_exclude_none params\<rparr>]\<rparr>)"
  using assms
  by (cases "TrafficInfoResponse X (expand_json payload)")
    (simp_all add: fetch_rail_traffic_info_def bind_def lift_def httpx_get_def Let_def
      raise_for_status_def json_def)

lemma construct_Inl:
  assumes "construct X fs (expand_json payload) = Inl e"
  shows "e = TypeError \<or> (\<exists>es. e = ValidationError es \<and> es \<noteq> [])"
proof (cases "expand_json payload")
  case (Inl e')
  then have "e' = TypeError"
    by (cases payload) simp_all
  with Inl assms show ?thesis
    by (simp add: construct_def)
next
  case (Inr args)
  with assms have "validate X fs args = Inl e"
    by (simp add: construct_def)
  from validate_Inl_names [OF this] show ?thesis
    by blast
qed

lemma missing_required:
  assumes "Field k t None lo hi \<in> set fs" and "args k = None"
  shows "\<exists>es. validate X fs args = Inl (ValidationError es) \<and> (k, Missing) \<in> set es"
proof -
  let ?es = "fst (validate_fields X args fs)"
  from assms(2) have "validate_field X args (Field k t None lo hi) = Inl [(k, Missing)]"
    by simp
  from validate_fields_errors [OF this assms(1)] have m: "(k, Missing) \<in> set ?es"
    by simp
  then have "?es \<noteq> []" by auto
  then have "validate X fs args = Inl (ValidationError ?es)"
    by (cases "validate_fields X args fs") (auto simp: validate_def split: list.splits)
  with m show ?thesis by blast
qed

text \<open>
  C7 as the code has it: when the upstream answers the rail traffic request with a success
  status and a JSON payload, \<^verbatim>\<open>fetch_rail_traffic_info\<close> returns or raises exactly as
  \<^verbatim>\<open>TrafficInfoResponse(**payload)\<close> does. A payload that does not fit therefore raises an
  unclassified exception and no value is returned: pydantic's \<^verbatim>\<open>ValidationError\<close>, with a
  line \<^verbatim>\<open>missing\<close> for \<^verbatim>\<open>total_count\<close> and for \<^verbatim>\<open>results\<close> when they are absent, or
  \<^verbatim>\<open>TypeError\<close> when the payload is not an object.
\<close>

theorem malformed_payload_raises_unclassified:
  assumes "http_get X \<lparr>url = BASE_URL @ ''/catalog/datasets/rail-traffic-information/records'',
      query_params = model_dump_exclude_none params\<rparr> = Reply code (Json payload)"
    and "200 \<le> code" and "code \<le> 299"
  shows "fst (fetch_rail_traffic_info X params w) = TrafficInfoResponse X (expand_json payload)
    \<and> (\<forall>e. TrafficInfoResponse X (expand_json payload) = Inl e \<longrightarrow>
          caller_sees (fst (fetch_rail_traffic_info X params w)) = Propagated e
          \<and> (e = TypeError \<or> (\<exists>es. e = ValidationError es \<and> es \<noteq> [])))
    \<and> (\<forall>kvs. payload = VDict kvs \<and> map_of kvs ''total_count'' = None \<longrightarrow>
          (\<exists>es. fst (fetch_rail_traffic_info X params w) = Inl (ValidationError es)
             \<and> (''total_count'', Missing) \<in> set es))
    \<and> (\<forall>kvs. payload = VDict kvs \<and> map_of kvs ''results'' = None \<longrightarrow>
          (\<exists>es. fst (fetch_rail_traffic_info X params w) = Inl (ValidationError es)
             \<and> (''results'', Missing) \<in> set es))
    \<and> ((\<forall>kvs. payload \<noteq> VDict kvs) \<longrightarrow>
          fst (fetch_rail_traffic_info X params w) = Inl TypeError)"
proof -
  have a: "fst (fetch_rail_traffic_info X params w) = TrafficInfoResponse X (expand_json payload)"
    using fetch_rail_traffic_info_success_status [OF assms, of w] by simp
  have b: "caller_sees (fst (fetch_rail_traffic_info X params w)) = Propagated e
      \<and> (e = TypeError \<or> (\<exists>es. e = ValidationError es \<and> es \<noteq> []))"
    if "TrafficInfoResponse X (expand_json payload) = Inl e" for e
    using that a construct_Inl [of X TrafficInfoResponse_fields payload e]
    by (simp add: TrafficInfoResponse_def)
  have c: "\<exists>es. fst (fetch_rail_traffic_info X params w) = Inl (ValidationError es)
      \<and> (''total_count'', Missing) \<in> set es"
    if "payload = VDict kvs \<and> map_of kvs ''total_count'' = None" for kvs
    using that a missing_required [of "''total_count''" TInt None None TrafficInfoResponse_fields "map_of kvs" X]
    by (simp add: TrafficInfoResponse_def construct_def TrafficInfoResponse_fields_def)
  have d: "\<exists>es. fst (fetch_rail_traffic_info X params w) = Inl (ValidationError es)
      \<and> (''results'', Missing) \<in> set es"
    if "payload = VDict kvs \<and> map_of kvs ''results'' = None" for kvs
    using that a missing_required [of "''results''" "TListOf ''TrafficInfoResult''" None None
        TrafficInfoResponse_fields "map_of kvs" X]
    by (simp add: TrafficInfoResponse_def construct_def TrafficInfoResponse_fields_def)
  have e: "fst (fetch_rail_traffic_info X params w) = Inl TypeError"
    if "\<forall>kvs. payload \<noteq> VDict kvs"
    using that a by (cases payload) (simp_all add: TrafficInfoResponse_def construct_def)
  from a b c d e show ?thesis
    by blast
qed

text \<open>An upstream answering 200 with \<^verbatim>\<open>{"total_count": 3}\<close>: \<^verbatim>\<open>results\<close> is missing.\<close>

theorem malformed_payload_raises_unclassified_witness:
  "\<exists>es. fst (fetch_rail_traffic_info (answering 200 (Json (VDict [(''total_count'', VInt 3)])))
        [(''select'', VNone), (''where'', VNone), (''group_by'', VNone), (''order_by'', VNone),
         (''limit'', VInt 10), (''offset'', VInt 0), (''refine'', VNone), (''exclude'', VNone),
         (''lang'', VNone), (''timezone'', VStr ''UTC''), (''include_links'', VBool False),
         (''include_app_metas'', VBool False)] w0) = Inl (ValidationError es)
     \<and> (''results'', Missing) \<in> set es"
proof -
  let ?X = "answering 200 (Json (VDict [(''total_count'', VInt 3)]))"
  let ?p = "[(''select'', VNone), (''where'', VNone), (''group_by'', VNone), (''order_by'', VNone),
         (''limit'', VInt 10), (''offset'', VInt 0), (''refine'', VNone), (''exclude'', VNone),
         (''lang'', VNone), (''timezone'', VStr ''UTC''), (''include_links'', VBool False),
         (''include_app_metas'', VBool False)]"
  have h: "http_get ?X \<lparr>url = BASE_URL @ ''/catalog/datasets/rail-traffic-information/records'',
      query_params = model_dump_exclude_none ?p\<rparr> = Reply 200 (Json (VDict [(''total_count'', VInt 3)]))"
    by (simp add: answering_def)
  have c1: "(200::nat) \<le> 200" and c2: "(200::nat) \<le> 299"
    by simp_all
  have "\<forall>kvs. VDict [(''total_count'', VInt 3)] = VDict kvs \<and> map_of kvs ''results'' = None \<longrightarrow>
          (\<exists>es. fst (fetch_rail_traffic_info ?X ?p w0) = Inl (ValidationError es)
             \<and> (''results'', Missing) \<in> set es)"
    using malformed_payload_raises_unclassified [OF h c1 c2, of w0] by (elim conjE)
  then have "VDict [(''total_count'', VInt 3)] = VDict [(''total_count'', VInt 3)]
        \<and> map_of [(''total_count'', VInt 3)] ''results'' = None \<longrightarrow>
          (\<exists>es. fst (fetch_rail_traffic_info ?X ?p w0) = Inl (ValidationError es)
             \<and> (''results'', Missing) \<in> set es)"
    by (rule spec)
  then show ?thesis
    by simp
qed

text \<open>The claim as stated fails on the empty object: the caller gets pydantic's
  \<^verbatim>\<open>ValidationError\<close>, not \<^verbatim>\<open>UpstreamMalformedResponse\<close>.\<close>

theorem malformed_payload_classified_counterexample:
  "caller_sees (fst (fetch_rail_traffic_info (answering 200 (Json (VDict [])))
       [(''select'', VNone), (''where'', VNone), (''group_by'', VNone), (''order_by'', VNone),
         (''limit'', VInt 10), (''offset'', VInt 0), (''refine'', VNone), (''exclude'', VNone),
         (''lang'', VNone), (''timezone'', VStr ''UTC''), (''include_links'', VBool False),
         (''include_app_metas'', VBool False)] w0))
     = Propagated (ValidationError [(''total_count'', Missing), (''results'', Missing)])
   \<and> caller_sees (fst (fetch_rail_traffic_info (answering 200 (Json (VDict [])))
       [(''select'', VNone), (''where'', VNone), (''group_by'', VNone), (''order_by'', VNone),
         (''limit'', VInt 10), (''offset'', VInt 0), (''refine'', VNone), (''exclude'', VNone),
         (''lang'', VNone), (''timezone'', VStr ''UTC''), (''include_links'', VBool False),
         (''include_app_metas'', VBool False)] w0))
     \<noteq> Classified UpstreamMalformedResponse"
proof -
  have f: "fst (fetch_rail_traffic_info (answering 200 (Json (VDict [])))
       [(''select'', VNone), (''where'', VNone), (''group_by'', VNone), (''order_by'', VNone),
         (''limit'', VInt 10), (''offset'', VInt 0), (''refine'', VNone), (''exclude'', VNone),
         (''lang'', VNone), (''timezone'', VStr ''UTC''), (''include_links'', VBool False),
         (''include_app_metas'', VBool False)] w0)
     = Inl (ValidationError [(''total_count'', Missing), (''results'', Missing)])"
    by (simp add: fetch_rail_traffic_info_def bind_def lift_def httpx_get_def Let_def
        raise_for_status_def json_def TrafficInfoResponse_def construct_def validate_def
        TrafficInfoResponse_fields_def answering_def offline_def)
  show ?thesis
    unfolding f by simp
qed

section \<open>Calls without arguments\<close>

lemma handler_with_params:
  "P = Inr D \<Longrightarrow>
   try_log_raise msg (bind (lift P) (\<lambda>params. bind (F params) (\<lambda>r. ret (G r)))) w =
     (case F D w of
        (Inl e, w') \<Rightarrow> (Inl e, w'\<lparr>logged := logged w' @ [(msg, e)]\<rparr>)
      | (Inr r, w') \<Rightarrow> (Inr (G r), w'))"
  by (simp add: try_log_raise_def bind_def lift_def ret_def split: prod.splits sum.splits)

lemma sent_after_logging:
  "sent (snd (case r of
        (Inl e, w') \<Rightarrow> (Inl e, w'\<lparr>logged := logged w' @ [(msg, e)]\<rparr>)
      | (Inr v, w') \<Rightarrow> (Inr (G v), w'))) = sent (snd r)"
  by (simp split: prod.splits sum.splits)

lemma predefined_after_logging:
  "predefined (snd (case r of
        (Inl e, w') \<Rightarrow> (Inl e, w'\<lparr>logged := logged w' @ [(msg, e)]\<rparr>)
      | (Inr v, w') \<Rightarrow> (Inr (G v), w'))) = predefined (snd r)"
  by (simp split: prod.splits sum.splits)

lemma fetch_screener_data_sets_day_gainers:
  "predefined (snd (fetch_screener_data X p w)) = predefined w @ [VStr ''day_gainers'']"
proof -
  have "FincanceScreenerParams X (Inr Map.empty) = Inr [(''screenerOptions'', VStr ''day_gainers'')]"
    by (simp add: FincanceScreenerParams_def construct_def validate_def FincanceScreenerParams_fields_def)
  then show ?thesis
    by (simp add: fetch_screener_data_def bind_def lift_def set_predefined_body_def
        screener_response_def split: list.splits option.splits)
qed

text \<open>
  C9: with \<^verbatim>\<open>arguments = None\<close> the handlers of rail-traffic-info, railway-lines and
  rolling-stock expand \<^verbatim>\<open>None\<close> directly: a \<^verbatim>\<open>TypeError\<close> is raised before any validation,
  logged and re-raised, and nothing is sent. Each of the other six handlers replaces \<^verbatim>\<open>None\<close>
  by the empty bag first: it behaves as on \<^verbatim>\<open>{}\<close>, validation gives the model that holds
  every default, and the handler goes on with that model: its outcome is that of its fetch
  function on the all-defaults model (the text block on return, the logged exception on
  failure), and the request it sends carries the defaults (the screener is set to
  \<^verbatim>\<open>day_gainers\<close>).
\<close>

theorem none_arguments:
  "handle_rail_traffic_info X None w =
     (Inl TypeError, w\<lparr>logged := logged w @ [(''Error fetching rail traffic info: '', TypeError)]\<rparr>)
   \<and> handle_railway_lines X None w =
     (Inl TypeError, w\<lparr>logged := logged w @ [(''Error fetching railway lines: '', TypeError)]\<rparr>)
   \<and> handle_rolling_stock X None w =
     (Inl TypeError, w\<lparr>logged := logged w @ [(''Error fetching rolling stock info: '', TypeError)]\<rparr>)
   \<and> (StationUsersParams X (expand (or_empty None)) = Inr
        [(''select'', VNone), (''where'', VNone), (''group_by'', VNone),
         (''order_by'', VNone), (''limit'', VInt 10), (''offset'', VInt 0),
         (''refine'', VNone), (''exclude'', VNone), (''lang'', VNone),
         (''include_links'', VBool False), (''include_app_metas'', VBool False)]
      \<and> handle_station_users X None w = handle_station_users X (Some Map.empty) w
      \<and> handle_station_users X None w =
          (case fetch_usage_data X
             [(''select'', VNone), (''where'', VNone), (''group_by'', VNone),
              (''order_by'', VNone), (''limit'', VInt 10), (''offset'', VInt 0),
              (''refine'', VNone), (''exclude'', VNone), (''lang'', VNone),
              (''include_links'', VBool False), (''include_app_metas'', VBool False)] w of
             (Inl e, w') \<Rightarrow> (Inl e, w'\<lparr>logged := logged w' @ [(''Error handling endpoint: '', e)]\<rparr>)
           | (Inr response, w') \<Rightarrow> (Inr [TextContent (model_str X response)], w'))
      \<and> sent (snd (handle_station_users X None w)) = sent w @
          [\<lparr>url = BASE_URL @ ''/catalog/datasets/anzahl-sbb-bahnhofbenutzer/records?limit=100'',
            query_params = [(''limit'', VInt 10), (''offset'', VInt 0), (''include_links'', VBool False),
             (''include_app_metas'', VBool False)]\<rparr>])
   \<and> (TargetActualComparedParams X (expand (or_empty None)) = Inr
        [(''select'', VNone), (''where'', VNone), (''group_by'', VNone),
         (''order_by'', VNone), (''limit'', VInt 10), (''offset'', VInt 0),
         (''refine'', VNone), (''exclude'', VNone), (''lang'', VNone),
         (''include_links'', VBool False), (''include_app_metas'', VBool False)]
      \<and> handle_target_actual_compared X None w = handle_target_actual_compared X (Some Map.empty) w
      \<and> handle_target_actual_compared X None w =
          (case fetch_target_actual_compared X
             [(''select'', VNone), (''where'', VNone), (''group_by'', VNone),
              (''order_by'', VNone), (''limit'', VInt 10), (''offset'', VInt 0),
              (''refine'', VNone), (''exclude'', VNone), (''lang'', VNone),
              (''include_links'', VBool False), (''include_app_metas'', VBool False)] w of
             (Inl e, w') \<Rightarrow> (Inl e, w'\<lparr>logged := logged w' @ [(''Error handling endpoint: '', e)]\<rparr>)
           | (Inr response, w') \<Rightarrow> (Inr [TextContent (model_str X response)], w'))
      \<and> sent (snd (handle_target_actual_compared X None w)) = sent w @
          [\<lparr>url = BASE_URL @ ''/catalog/datasets/ist-daten-sbb/records?limit=100'',
            query_params = [(''limit'', VInt 10), (''offset'', VInt 0), (''include_links'', VBool False),
             (''include_app_metas'', VBool False)]\<rparr>])
   \<and> (StationFurnitureParams X (expand (or_empty None)) = Inr
        [(''select'', VNone), (''where'', VNone), (''group_by'', VNone),
         (''order_by'', VNone), (''limit'', VInt 10), (''offset'', VInt 0),
         (''refine'', VNone), (''exclude'', VNone), (''lang'', VNone),
         (''include_links'', VBool False), (''include_app_metas'', VBool False)]
      \<and> handle_station_furnitures X None w = handle_station_furnitures X (Some Map.empty) w
      \<and> handle_station_furnitures X None w =
          (case fetch_station_furnitures X
             [(''select'', VNone), (''where'', VNone), (''group_by'', VNone),
              (''order_by'', VNone), (''limit'', VInt 10), (''offset'', VInt 0),
              (''refine'', VNone), (''exclude'', VNone), (''lang'', VNone),
              (''include_links'', VBool False), (''include_app_metas'', VBool False)] w of
             (Inl e, w') \<Rightarrow> (Inl e, w'\<lparr>logged := logged w' @ [(''Error handling endpoint: '', e)]\<rparr>)
           | (Inr response, w') \<Rightarrow> (Inr [TextContent (model_str X response)], w'))
      \<and> sent (snd (handle_station_furnitures X None w)) = sent w @
          [\<lparr>url = BASE_URL @ ''/catalog/datasets/mobiliar-im-bahnhof/records?limit=100'',
            query_params = [(''limit'', VInt 10), (''offset'', VInt 0), (''include_links'', VBool False),
             (''include_app_metas'', VBool False)]\<rparr>])
   \<and> (StationServiceParams X (expand (or_empty None)) = Inr
        [(''select'', VNone), (''where'', VNone), (''group_by'', VNone),
         (''order_by'', VNone), (''limit'', VInt 10), (''offset'', VInt 0),
         (''refine'', VNone), (''exclude'', VNone), (''lang'', VNone),
         (''include_links'', VBool False), (''include_app_metas'', VBool False)]
      \<and> handle_station_services X None w = handle_station_services X (Some Map.empty) w
      \<and> handle_station_services X None w =
          (case fetch_station_services X
             [(''select'', VNone), (''where'', VNone), (''group_by'', VNone),
              (''order_by'', VNone), (''limit'', VInt 10), (''offset'', VInt 0),
              (''refine'', VNone), (''exclude'', VNone), (''lang'', VNone),
              (''include_links'', VBool False), (''include_app_metas'', VBool False)] w of
             (Inl e, w') \<Rightarrow> (Inl e, w'\<lparr>logged := logged w' @ [(''Error handling endpoint: '', e)]\<rparr>)
           | (Inr response, w') \<Rightarrow> (Inr [TextContent (model_str X response)], w'))
      \<and> sent (snd (handle_station_services X None w)) = sent w @
          [\<lparr>url = BASE_URL @ ''/catalog/datasets/haltestelle-offnungszeiten/records?limit=100'',
            query_params = [(''limit'', VInt 10), (''offset'', VInt 0), (''include_links'', VBool False),
             (''include_app_metas'', VBool False)]\<rparr>])
   \<and> (StoresParams X (expand (or_empty None)) = Inr
        [(''select'', VNone), (''where'', VNone), (''group_by'', VNone),
         (''order_by'', VNone), (''limit'', VInt 10), (''offset'', VInt 0),
         (''refine'', VNone), (''exclude'', VNone), (''lang'', VNone),
         (''include_links'', VBool False), (''include_app_metas'', VBool False)]
      \<and> hande_stores_data X None w = hande_stores_data X (Some Map.empty) w
      \<and> hande_stores_data X None w =
          (case fetch_stores_data X
             [(''select'', VNone), (''where'', VNone), (''group_by'', VNone),
              (''order_by'', VNone), (''limit'', VInt 10), (''offset'', VInt 0),
              (''refine'', VNone), (''exclude'', VNone), (''lang'', VNone),
              (''include_links'', VBool False), (''include_app_metas'', VBool False)] w of
             (Inl e, w') \<Rightarrow> (Inl e, w'\<lparr>logged := logged w' @ [(''Error handling endpoint: '', e)]\<rparr>)
           | (Inr response, w') \<Rightarrow> (Inr [TextContent (model_str X response)], w'))
      \<and> sent (snd (hande_stores_data X None w)) = sent w @
          [\<lparr>url = BASE_URL @ ''/catalog/datasets/offnungszeiten-shops/records?limit=100'',
            query_params = [(''limit'', VInt 10), (''offset'', VInt 0), (''include_links'', VBool False),
             (''include_app_metas'', VBool False)]\<rparr>])
   \<and> (FincanceScreenerParams X (expand (or_empty None)) = Inr [(''screenerOptions'', VStr ''day_gainers'')]
      \<and> handle_screenerdata X None w = handle_screenerdata X (Some Map.empty) w
      \<and> handle_screenerdata X None w =
          (case fetch_screener_data X [(''screenerOptions'', VStr ''day_gainers'')] w of
             (Inl e, w') \<Rightarrow> (Inl e, w'\<lparr>logged := logged w' @ [(''Error handling endpoint: '', e)]\<rparr>)
           | (Inr response, w') \<Rightarrow> (Inr [TextContent (model_str X response)], w'))
      \<and> predefined (snd (handle_screenerdata X None w)) = predefined w @ [VStr ''day_gainers''])"
proof -
  have t0: "handle_rail_traffic_info X None w =
     (Inl TypeError, w\<lparr>logged := logged w @ [(''Error fetching rail traffic info: '', TypeError)]\<rparr>)"
    by (simp add: handle_rail_traffic_info_def TrafficInfoParams_def construct_def
        try_log_raise_def bind_def lift_def)
  have t1: "handle_railway_lines X None w =
     (Inl TypeError, w\<lparr>logged := logged w @ [(''Error fetching railway lines: '', TypeError)]\<rparr>)"
    by (simp add: handle_railway_lines_def RailwayLineParams_def construct_def
        try_log_raise_def bind_def lift_def)
  have t2: "handle_rolling_stock X None w =
     (Inl TypeError, w\<lparr>logged := logged w @ [(''Error fetching rolling stock info: '', TypeError)]\<rparr>)"
    by (simp add: handle_rolling_stock_def RollingStockParams_def construct_def
        try_log_raise_def bind_def lift_def)
  have c0: "(StationUsersParams X (expand (or_empty None)) = Inr
        [(''select'', VNone), (''where'', VNone), (''group_by'', VNone),
         (''order_by'', VNone), (''limit'', VInt 10), (''offset'', VInt 0),
         (''refine'', VNone), (''exclude'', VNone), (''lang'', VNone),
         (''include_links'', VBool False), (''include_app_metas'', VBool False)]
      \<and> handle_station_users X None w = handle_station_users X (Some Map.empty) w
      \<and> handle_station_users X None w =
          (case fetch_usage_data X
             [(''select'', VNone), (''where'', VNone), (''group_by'', VNone),
              (''order_by'', VNone), (''limit'', VInt 10), (''offset'', VInt 0),
              (''refine'', VNone), (''exclude'', VNone), (''lang'', VNone),
              (''include_links'', VBool False), (''include_app_metas'', VBool False)] w of
             (Inl e, w') \<Rightarrow> (Inl e, w'\<lparr>logged := logged w' @ [(''Error handling endpoint: '', e)]\<rparr>)
           | (Inr response, w') \<Rightarrow> (Inr [TextContent (model_str X response)], w'))
      \<and> sent (snd (handle_station_users X None w)) = sent w @
          [\<lparr>url = BASE_URL @ ''/catalog/datasets/anzahl-sbb-bahnhofbenutzer/records?limit=100'',
            query_params = [(''limit'', VInt 10), (''offset'', VInt 0), (''include_links'', VBool False),
             (''include_app_metas'', VBool False)]\<rparr>])"
  proof -
    let ?D = "[(''select'', VNone), (''where'', VNone), (''group_by'', VNone),
              (''order_by'', VNone), (''limit'', VInt 10), (''offset'', VInt 0),
              (''refine'', VNone), (''exclude'', VNone), (''lang'', VNone),
              (''include_links'', VBool False), (''include_app_metas'', VBool False)]"
    have p: "StationUsersParams X (expand (or_empty None)) = Inr ?D"
      by (simp add: StationUsersParams_def construct_def validate_def StationUsersParams_fields_def)
    have n: "handle_station_users X None w = handle_station_users X (Some Map.empty) w"
      by (simp add: handle_station_users_def)
    have h: "handle_station_users X None w =
          (case fetch_usage_data X ?D w of
             (Inl e, w') \<Rightarrow> (Inl e, w'\<lparr>logged := logged w' @ [(''Error handling endpoint: '', e)]\<rparr>)
           | (Inr response, w') \<Rightarrow> (Inr [TextContent (model_str X response)], w'))"
      unfolding handle_station_users_def using p by (rule handler_with_params)
    have "sent (snd (fetch_usage_data X ?D w)) = sent w @
          [\<lparr>url = BASE_URL @ ''/catalog/datasets/anzahl-sbb-bahnhofbenutzer/records?limit=100'',
            query_params = model_dump_exclude_none ?D\<rparr>]"
      unfolding fetch_usage_data_def by (rule fetch_sends)
    then have s: "sent (snd (handle_station_users X None w)) = sent w @
          [\<lparr>url = BASE_URL @ ''/catalog/datasets/anzahl-sbb-bahnhofbenutzer/records?limit=100'',
            query_params = [(''limit'', VInt 10), (''offset'', VInt 0), (''include_links'', VBool False),
             (''include_app_metas'', VBool False)]\<rparr>]"
      unfolding h sent_after_logging by (simp add: model_dump_exclude_none_def)
    from p n h s show ?thesis
      by (intro conjI)
  qed
  have c1: "(TargetActualComparedParams X (expand (or_empty None)) = Inr
        [(''select'', VNone), (''where'', VNone), (''group_by'', VNone),
         (''order_by'', VNone), (''limit'', VInt 10), (''offset'', VInt 0),
         (''refine'', VNone), (''exclude'', VNone), (''lang'', VNone),
         (''include_links'', VBool False), (''include_app_metas'', VBool False)]
      \<and> handle_target_actual_compared X None w = handle_target_actual_compared X (Some Map.empty) w
      \<and> handle_target_actual_compared X None w =
          (case fetch_target_actual_compared X
             [(''select'', VNone), (''where'', VNone), (''group_by'', VNone),
              (''order_by'', VNone), (''limit'', VInt 10), (''offset'', VInt 0),
              (''refine'', VNone), (''exclude'', VNone), (''lang'', VNone),
              (''include_links'', VBool False), (''include_app_metas'', VBool False)] w of
             (Inl e, w') \<Rightarrow> (Inl e, w'\<lparr>logged := logged w' @ [(''Error handling endpoint: '', e)]\<rparr>)
           | (Inr response, w') \<Rightarrow> (Inr [TextContent (model_str X response)], w'))
      \<and> sent (snd (handle_target_actual_compared X None w)) = sent w @
          [\<lparr>url = BASE_URL @ ''/catalog/datasets/ist-daten-sbb/records?limit=100'',
            query_params = [(''limit'', VInt 10), (''offset'', VInt 0), (''include_links'', VBool False),
             (''include_app_metas'', VBool False)]\<rparr>])"
  proof -
    let ?D = "[(''select'', VNone), (''where'', VNone), (''group_by'', VNone),
              (''order_by'', VNone), (''limit'', VInt 10), (''offset'', VInt 0),
              (''refine'', VNone), (''exclude'', VNone), (''lang'', VNone),
              (''include_links'', VBool False), (''include_app_metas'', VBool False)]"
    have p: "TargetActualComparedParams X (expand (or_empty None)) = Inr ?D"
      by (simp add: TargetActualComparedParams_def construct_def validate_def TargetActualComparedParams_fields_def)
    have n: "handle_target_actual_compared X None w = handle_target_actual_compared X (Some Map.empty) w"
      by (simp add: handle_target_actual_compared_def)
    have h: "handle_target_actual_compared X None w =
          (case fetch_target_actual_compared X ?D w of
             (Inl e, w') \<Rightarrow> (Inl e, w'\<lparr>logged := logged w' @ [(''Error handling endpoint: '', e)]\<rparr>)
           | (Inr response, w') \<Rightarrow> (Inr [TextContent (model_str X response)], w'))"
      unfolding handle_target_actual_compared_def using p by (rule handler_with_params)
    have "sent (snd (fetch_target_actual_compared X ?D w)) = sent w @
          [\<lparr>url = BASE_URL @ ''/catalog/datasets/ist-daten-sbb/records?limit=100'',
            query_params = model_dump_exclude_none ?D\<rparr>]"
      unfolding fetch_target_actual_compared_def by (rule fetch_sends)
    then have s: "sent (snd (handle_target_actual_compared X None w)) = sent w @
          [\<lparr>url = BASE_URL @ ''/catalog/datasets/ist-daten-sbb/records?limit=100'',
            query_params = [(''limit'', VInt 10), (''offset'', VInt 0), (''include_links'', VBool False),
             (''include_app_metas'', VBool False)]\<rparr>]"
      unfolding h sent_after_logging by (simp add: model_dump_exclude_none_def)
    from p n h s show ?thesis
      by (intro conjI)
  qed
  have c2: "(StationFurnitureParams X (expand (or_empty None)) = Inr
        [(''select'', VNone), (''where'', VNone), (''group_by'', VNone),
         (''order_by'', VNone), (''limit'', VInt 10), (''offset'', VInt 0),
         (''refine'', VNone), (''exclude'', VNone), (''lang'', VNone),
         (''include_links'', VBool False), (''include_app_metas'', VBool False)]
      \<and> handle_station_furnitures X None w = handle_station_furnitures X (Some Map.empty) w
      \<and> handle_station_furnitures X None w =
          (case fetch_station_furnitures X
             [(''select'', VNone), (''where'', VNone), (''group_by'', VNone),
              (''order_by'', VNone), (''limit'', VInt 10), (''offset'', VInt 0),
              (''refine'', VNone), (''exclude'', VNone), (''lang'', VNone),
              (''include_links'', VBool False), (''include_app_metas'', VBool False)] w of
             (Inl e, w') \<Rightarrow> (Inl e, w'\<lparr>logged := logged w' @ [(''Error handling endpoint: '', e)]\<rparr>)
           | (Inr response, w') \<Rightarrow> (Inr [TextContent (model_str X response)], w'))
      \<and> sent (snd (handle_station_furnitures X None w)) = sent w @
          [\<lparr>url = BASE_URL @ ''/catalog/datasets/mobiliar-im-bahnhof/records?limit=100'',
            query_params = [(''limit'', VInt 10), (''offset'', VInt 0), (''include_links'', VBool False),
             (''include_app_metas'', VBool False)]\<rparr>])"
  proof -
    let ?D = "[(''select'', VNone), (''where'', VNone), (''group_by'', VNone),
              (''order_by'', VNone), (''limit'', VInt 10), (''offset'', VInt 0),
              (''refine'', VNone), (''exclude'', VNone), (''lang'', VNone),
              (''include_links'', VBool False), (''include_app_metas'', VBool False)]"
    have p: "StationFurnitureParams X (expand (or_empty None)) = Inr ?D"
      by (simp add: StationFurnitureParams_def construct_def validate_def StationFurnitureParams_fields_def)
    have n: "handle_station_furnitures X None w = handle_station_furnitures X (Some Map.empty) w"
      by (simp add: handle_station_furnitures_def)
    have h: "handle_station_furnitures X None w =
          (case fetch_station_furnitures X ?D w of
             (Inl e, w') \<Rightarrow> (Inl e, w'\<lparr>logged := logged w' @ [(''Error handling endpoint: '', e)]\<rparr>)
           | (Inr response, w') \<Rightarrow> (Inr [TextContent (model_str X response)], w'))"
      unfolding handle_station_furnitures_def using p by (rule handler_with_params)
    have "sent (snd (fetch_station_furnitures X ?D w)) = sent w @
          [\<lparr>url = BASE_URL @ ''/catalog/datasets/mobiliar-im-bahnhof/records?limit=100'',
            query_params = model_dump_exclude_none ?D\<rparr>]"
      unfolding fetch_station_furnitures_def by (rule fetch_sends)
    then have s: "sent (snd (handle_station_furnitures X None w)) = sent w @
          [\<lparr>url = BASE_URL @ ''/catalog/datasets/mobiliar-im-bahnhof/records?limit=100'',
            query_params = [(''limit'', VInt 10), (''offset'', VInt 0), (''include_links'', VBool False),
             (''include_app_metas'', VBool False)]\<rparr>]"
      unfolding h sent_after_logging by (simp add: model_dump_exclude_none_def)
    from p n h s show ?thesis
      by (intro conjI)
  qed
  have c3: "(StationServiceParams X (expand (or_empty None)) = Inr
        [(''select'', VNone), (''where'', VNone), (''group_by'', VNone),
         (''order_by'', VNone), (''limit'', VInt 10), (''offset'', VInt 0),
         (''refine'', VNone), (''exclude'', VNone), (''lang'', VNone),
         (''include_links'', VBool False), (''include_app_metas'', VBool False)]
      \<and> handle_station_services X None w = handle_station_services X (Some Map.empty) w
      \<and> handle_station_services X None w =
          (case fetch_station_services X
             [(''select'', VNone), (''where'', VNone), (''group_by'', VNone),
              (''order_by'', VNone), (''limit'', VInt 10), (''offset'', VInt 0),
              (''refine'', VNone), (''exclude'', VNone), (''lang'', VNone),
              (''include_links'', VBool False), (''include_app_metas'', VBool False)] w of
             (Inl e, w') \<Rightarrow> (Inl e, w'\<lparr>logged := logged w' @ [(''Error handling endpoint: '', e)]\<rparr>)
           | (Inr response, w') \<Rightarrow> (Inr [TextContent (model_str X response)], w'))
      \<and> sent (snd (handle_station_services X None w)) = sent w @
          [\<lparr>url = BASE_URL @ ''/catalog/datasets/haltestelle-offnungszeiten/records?limit=100'',
            query_params = [(''limit'', VInt 10), (''offset'', VInt 0), (''include_links'', VBool False),
             (''include_app_metas'', VBool False)]\<rparr>])"
  proof -
    let ?D = "[(''select'', VNone), (''where'', VNone), (''group_by'', VNone),
              (''order_by'', VNone), (''limit'', VInt 10), (''offset'', VInt 0),
              (''refine'', VNone), (''exclude'', VNone), (''lang'', VNone),
              (''include_links'', VBool False), (''include_app_metas'', VBool False)]"
    have p: "StationServiceParams X (expand (or_empty None)) = Inr ?D"
      by (simp add: StationServiceParams_def construct_def validate_def StationServiceParams_fields_def)
    have n: "handle_station_services X None w = handle_station_services X (Some Map.empty) w"
      by (simp add: handle_station_services_def)
    have h: "handle_station_services X None w =
          (case fetch_station_services X ?D w of
             (Inl e, w') \<Rightarrow> (Inl e, w'\<lparr>logged := logged w' @ [(''Error handling endpoint: '', e)]\<rparr>)
           | (Inr response, w') \<Rightarrow> (Inr [TextContent (model_str X response)], w'))"
      unfolding handle_station_services_def using p by (rule handler_with_params)
    have "sent (snd (fetch_station_services X ?D w)) = sent w @
          [\<lparr>url = BASE_URL @ ''/catalog/datasets/haltestelle-offnungszeiten/records?limit=100'',
            query_params = model_dump_exclude_none ?D\<rparr>]"
      unfolding fetch_station_services_def by (rule fetch_sends)
    then have s: "sent (snd (handle_station_services X None w)) = sent w @
          [\<lparr>url = BASE_URL @ ''/catalog/datasets/haltestelle-offnungszeiten/records?limit=100'',
            query_params = [(''limit'', VInt 10), (''offset'', VInt 0), (''include_links'', VBool False),
             (''include_app_metas'', VBool False)]\<rparr>]"
      unfolding h sent_after_logging by (simp add: model_dump_exclude_none_def)
    from p n h s show ?thesis
      by (intro conjI)
  qed
  have c4: "(StoresParams X (expand (or_empty None)) = Inr
        [(''select'', VNone), (''where'', VNone), (''group_by'', VNone),
         (''order_by'', VNone), (''limit'', VInt 10), (''offset'', VInt 0),
         (''refine'', VNone), (''exclude'', VNone), (''lang'', VNone),
         (''include_links'', VBool False), (''include_app_metas'', VBool False)]
      \<and> hande_stores_data X None w = hande_stores_data X (Some Map.empty) w
      \<and> hande_stores_data X None w =
          (case fetch_stores_data X
             [(''select'', VNone), (''where'', VNone), (''group_by'', VNone),
              (''order_by'', VNone), (''limit'', VInt 10), (''offset'', VInt 0),
              (''refine'', VNone), (''exclude'', VNone), (''lang'', VNone),
              (''include_links'', VBool False), (''include_app_metas'', VBool False)] w of
             (Inl e, w') \<Rightarrow> (Inl e, w'\<lparr>logged := logged w' @ [(''Error handling endpoint: '', e)]\<rparr>)
           | (Inr response, w') \<Rightarrow> (Inr [TextContent (model_str X response)], w'))
      \<and> sent (snd (hande_stores_data X None w)) = sent w @
          [\<lparr>url = BASE_URL @ ''/catalog/datasets/offnungszeiten-shops/records?limit=100'',
            query_params = [(''limit'', VInt 10), (''offset'', VInt 0), (''include_links'', VBool False),
             (''include_app_metas'', VBool False)]\<rparr>])"
  proof -
    let ?D = "[(''select'', VNone), (''where'', VNone), (''group_by'', VNone),
              (''order_by'', VNone), (''limit'', VInt 10), (''offset'', VInt 0),
              (''refine'', VNone), (''exclude'', VNone), (''lang'', VNone),
              (''include_links'', VBool False), (''include_app_metas'', VBool False)]"
    have p: "StoresParams X (expand (or_empty None)) = Inr ?D"
      by (simp add: StoresParams_def construct_def validate_def StoresParams_fields_def)
    have n: "hande_stores_data X None w = hande_stores_data X (Some Map.empty) w"
      by (simp add: hande_stores_data_def)
    have h: "hande_stores_data X None w =
          (case fetch_stores_data X ?D w of
             (Inl e, w') \<Rightarrow> (Inl e, w'\<lparr>logged := logged w' @ [(''Error handling endpoint: '', e)]\<rparr>)
           | (Inr response, w') \<Rightarrow> (Inr [TextContent (model_str X response)], w'))"
      unfolding hande_stores_data_def using p by (rule handler_with_params)
    have "sent (snd (fetch_stores_data X ?D w)) = sent w @
          [\<lparr>url = BASE_URL @ ''/catalog/datasets/offnungszeiten-shops/records?limit=100'',
            query_params = model_dump_exclude_none ?D\<rparr>]"
      unfolding fetch_stores_data_def by (rule fetch_sends)
    then have s: "sent (snd (hande_stores_data X None w)) = sent w @
          [\<lparr>url = BASE_URL @ ''/catalog/datasets/offnungszeiten-shops/records?limit=100'',
            query_params = [(''limit'', VInt 10), (''offset'', VInt 0), (''include_links'', VBool False),
             (''include_app_metas'', VBool False)]\<rparr>]"
      unfolding h sent_after_logging by (simp add: model_dump_exclude_none_def)
    from p n h s show ?thesis
      by (intro conjI)
  qed
  have c5: "(FincanceScreenerParams X (expand (or_empty None)) = Inr [(''screenerOptions'', VStr ''day_gainers'')]
      \<and> handle_screenerdata X None w = handle_screenerdata X (Some Map.empty) w
      \<and> handle_screenerdata X None w =
          (case fetch_screener_data X [(''screenerOptions'', VStr ''day_gainers'')] w of
             (Inl e, w') \<Rightarrow> (Inl e, w'\<lparr>logged := logged w' @ [(''Error handling endpoint: '', e)]\<rparr>)
           | (Inr response, w') \<Rightarrow> (Inr [TextContent (model_str X response)], w'))
      \<and> predefined (snd (handle_screenerdata X None w)) = predefined w @ [VStr ''day_gainers''])"
  proof -
    let ?D = "[(''screenerOptions'', VStr ''day_gainers'')]"
    have p: "FincanceScreenerParams X (expand (or_empty None)) = Inr ?D"
      by (simp add: FincanceScreenerParams_def construct_def validate_def FincanceScreenerParams_fields_def)
    have n: "handle_screenerdata X None w = handle_screenerdata X (Some Map.empty) w"
      by (simp add: handle_screenerdata_def)
    have h: "handle_screenerdata X None w =
          (case fetch_screener_data X ?D w of
             (Inl e, w') \<Rightarrow> (Inl e, w'\<lparr>logged := logged w' @ [(''Error handling endpoint: '', e)]\<rparr>)
           | (Inr response, w') \<Rightarrow> (Inr [TextContent (model_str X response)], w'))"
      unfolding handle_screenerdata_def using p by (rule handler_with_params)
    have s: "predefined (snd (handle_screenerdata X None w)) = predefined w @ [VStr ''day_gainers'']"
      unfolding h predefined_after_logging by (rule fetch_screener_data_sets_day_gainers)
    from p n h s show ?thesis
      by (intro conjI)
  qed
  show ?thesis
    by (rule conjI [OF t0 conjI [OF t1 conjI [OF t2 conjI [OF c0 conjI [OF c1 conjI [OF c2
      conjI [OF c3 conjI [OF c4 c5]]]]]]]])
qed

text \<open>Two calls without arguments against an upstream that answers with no results: rail
  traffic raises \<^verbatim>\<open>TypeError\<close> and sends nothing, station users sends the all-defaults request
  and returns its text block.\<close>

theorem none_arguments_witness:
  "handle_rail_traffic_info
      (answering 200 (Json (VDict [(''total_count'', VInt 0), (''results'', VList [])]))) None w0 =
     (Inl TypeError,
      \<lparr>sent = [], predefined = [],
       logged = [(''Error fetching rail traffic info: '', TypeError)]\<rparr>)
   \<and> handle_station_users
      (answering 200 (Json (VDict [(''total_count'', VInt 0), (''results'', VList [])]))) None w0 =
     (Inr [TextContent ''total_count results ''],
      \<lparr>sent = [\<lparr>url = ''https://data.sbb.ch/api/explore/v2.1/catalog/datasets/anzahl-sbb-bahnhofbenutzer/records?limit=100'',
                query_params = [(''limit'', VInt 10), (''offset'', VInt 0),
                  (''include_links'', VBool False), (''include_app_metas'', VBool False)]\<rparr>],
       predefined = [], logged = []\<rparr>)"
proof -
  let ?X = "answering 200 (Json (VDict [(''total_count'', VInt 0), (''results'', VList [])]))"
  let ?D = "[(''select'', VNone), (''where'', VNone), (''group_by'', VNone),
        (''order_by'', VNone), (''limit'', VInt 10), (''offset'', VInt 0),
        (''refine'', VNone), (''exclude'', VNone), (''lang'', VNone),
        (''include_links'', VBool False), (''include_app_metas'', VBool False)]"
  let ?r = "[(''total_count'', VInt 0), (''results'', VList [])]"
  let ?w2 = "\<lparr>sent = [\<lparr>url = ''https://data.sbb.ch/api/explore/v2.1/catalog/datasets/anzahl-sbb-bahnhofbenutzer/records?limit=100'',
                query_params = [(''limit'', VInt 10), (''offset'', VInt 0),
                  (''include_links'', VBool False), (''include_app_metas'', VBool False)]\<rparr>],
       predefined = [], logged = []\<rparr>"
  note t = none_arguments [of ?X w0]
  have a: "handle_rail_traffic_info ?X None w0 =
     (Inl TypeError,
      \<lparr>sent = [], predefined = [],
       logged = [(''Error fetching rail traffic info: '', TypeError)]\<rparr>)"
    unfolding t [THEN conjunct1] by (simp add: w0_def)
  have f: "fetch_usage_data ?X ?D w0 = (Inr ?r, ?w2)"
    by (simp add: fetch_usage_data_def bind_def lift_def httpx_get_def Let_def
        raise_for_status_def json_def StationUsersResponse_def construct_def validate_def
        StationUsersResponse_fields_def check_bounds_def answering_def offline_def
        strict_int_def dict_item_def w0_def BASE_URL_def model_dump_exclude_none_def)
  have s: "model_str ?X ?r = ''total_count results ''"
    by (simp add: answering_def offline_def field_names_def)
  have b: "handle_station_users ?X None w0 = (Inr [TextContent ''total_count results ''], ?w2)"
    unfolding t [THEN conjunct2, THEN conjunct2, THEN conjunct2, THEN conjunct1,
        THEN conjunct2, THEN conjunct2, THEN conjunct1] f
    by (simp only: prod.case sum.case s)
  from a b show ?thesis
    by (rule conjI)
qed

end
